theory Spec2Isabelle
  imports Complex_Main
begin

section \<open>Python values, exceptions and built-ins\<close>

text \<open>
  The repository is Python glue code: an enumeration of backbones with a dispatching
  factory (\<^verbatim>\<open>model.py\<close>, in two versions) and two dataset classes with a retrieval
  evaluation helper (\<^verbatim>\<open>sscd/datasets/disc.py\<close>). Everything it calls from other
  libraries is a parameter of the model here; an exception raised inside such a
  collaborator is the value \<open>Raised msg\<close>, an exception the repository's own lines
  raise has a constructor of its own.
\<close>

datatype exn =
    AssertionError string
  | IndexError
  | TypeError
  | ValueError
  | ArgumentError
  | Raised string

text \<open>
  A Python float is a finite number, an infinity (with its sign) or a NaN. Only its
  truth value and its identity are used by the code.
\<close>

datatype pyfloat = Finite real | Infinite bool | NaN

datatype 'o pyval =
    PyNone
  | PyBool bool
  | PyInt int
  | PyFloat pyfloat
  | PyStr string
  | PyObj 'o

text \<open>Python's truth value testing; an opaque object is true, as objects are by default.\<close>

fun truthy :: "'o pyval \<Rightarrow> bool" where
  "truthy PyNone = False"
| "truthy (PyBool b) = b"
| "truthy (PyInt i) = (i \<noteq> 0)"
| "truthy (PyFloat (Finite r)) = (r \<noteq> 0)"
| "truthy (PyFloat (Infinite s)) = True"
| "truthy (PyFloat NaN) = True"
| "truthy (PyStr s) = (s \<noteq> [])"
| "truthy (PyObj x) = True"

text \<open>\<^verbatim>\<open>a or b\<close>: the left operand when it is true, the right one otherwise.\<close>

definition py_or :: "'o pyval \<Rightarrow> 'o pyval \<Rightarrow> 'o pyval" where
  "py_or a b = (if truthy a then a else b)"

text \<open>A collaborator's result, with its exception wrapped.\<close>

definition ext :: "string + 'a \<Rightarrow> exn + 'a" where
  "ext r = (case r of Inl msg \<Rightarrow> Inl (Raised msg) | Inr x \<Rightarrow> Inr x)"

text \<open>\<^verbatim>\<open>xs[i]\<close> on a list: a negative index counts from the end, anything else out of
  range raises IndexError.\<close>

definition py_getitem :: "'a list \<Rightarrow> int \<Rightarrow> exn + 'a" where
  "py_getitem xs i =
     (if 0 \<le> i \<and> i < int (length xs) then Inr (xs ! nat i)
      else if - int (length xs) \<le> i \<and> i < 0 then Inr (xs ! nat (i + int (length xs)))
      else Inl IndexError)"

subsection \<open>The \<^verbatim>\<open>%0wd\<close> conversion\<close>

definition digit_char :: "nat \<Rightarrow> char" where
  "digit_char d = ''0123456789'' ! d"

fun decimal :: "nat \<Rightarrow> string" where
  "decimal n = (if n < 10 then [digit_char n] else decimal (n div 10) @ [digit_char (n mod 10)])"

declare decimal.simps [simp del]

text \<open>\<^verbatim>\<open>"%0wd" % i\<close>: the sign first, then zeros up to the width \<open>w\<close>, then the digits.\<close>

definition format_0d :: "nat \<Rightarrow> int \<Rightarrow> string" where
  "format_0d w i =
     (let sign = (if i < 0 then ''-'' else '''');
          ds = decimal (nat \<bar>i\<bar>)
      in sign @ replicate (w - length sign - length ds) (CHR ''0'') @ ds)"

subsection \<open>\<^verbatim>\<open>os.path\<close> (POSIX)\<close>

definition os_path_join :: "string \<Rightarrow> string \<Rightarrow> string" where
  "os_path_join a b =
     (if b \<noteq> [] \<and> hd b = CHR ''/'' then b
      else if a = [] \<or> last a = CHR ''/'' then a @ b
      else a @ ''/'' @ b)"

text \<open>\<^verbatim>\<open>p.rfind(c)\<close>: the last index of \<open>c\<close>, or -1.\<close>

fun rfind :: "string \<Rightarrow> char \<Rightarrow> int" where
  "rfind [] c = - 1"
| "rfind (x # xs) c =
     (let r = rfind xs c in if 0 \<le> r then r + 1 else if x = c then 0 else - 1)"

definition os_path_basename :: "string \<Rightarrow> string" where
  "os_path_basename p = drop (nat (rfind p (CHR ''/'') + 1)) p"

text \<open>
  \<^verbatim>\<open>os.path.splitext\<close>: the extension starts at the last dot, provided that dot comes
  after the last separator and some character between the two is not a dot.
\<close>

definition os_path_splitext :: "string \<Rightarrow> string \<times> string" where
  "os_path_splitext p =
     (let sepIndex = rfind p (CHR ''/'');
          dotIndex = rfind p (CHR ''.'')
      in if sepIndex < dotIndex \<and>
            list_ex (\<lambda>c. c \<noteq> CHR ''.'')
              (take (nat (dotIndex - (sepIndex + 1))) (drop (nat (sepIndex + 1)) p))
         then (take (nat dotIndex) p, drop (nat dotIndex) p)
         else (p, ''''))"

subsection \<open>Dictionaries\<close>

text \<open>A dict keeps insertion order: an association list with distinct keys.\<close>

fun dict_set :: "('k \<times> 'v) list \<Rightarrow> 'k \<Rightarrow> 'v \<Rightarrow> ('k \<times> 'v) list" where
  "dict_set [] k v = [(k, v)]"
| "dict_set ((k', v') # d) k v = (if k' = k then (k, v) # d else (k', v') # dict_set d k v)"

fun dict_update :: "('k \<times> 'v) list \<Rightarrow> ('k \<times> 'v) list \<Rightarrow> ('k \<times> 'v) list" where
  "dict_update d [] = d"
| "dict_update d ((k, v) # e) = dict_update (dict_set d k v) e"

section \<open>\<^verbatim>\<open>model.py\<close>: the backbone enumeration and its factory\<close>

datatype Implementation = CLASSY_VISION | TORCHVISION | TIMM

text \<open>The torchvision constructors the module imports.\<close>

datatype tv_constructor =
    resnet18 | resnet50 | resnext101_32x8d
  | efficientnet_b0 | mobilenet_v3_large
  | regnet_x_800mf | regnet_y_800mf

text \<open>The first component of a member's value: a model name or a constructor.\<close>

datatype model_ref = Name string | Callable tv_constructor

datatype Backbone =
    CV_RESNET18 | CV_RESNET50 | CV_RESNEXT101
  | TV_EFFICIENTNET_B0 | TV_MOBILENETV3 | TV_REGNET_X_800MF | TV_REGNET_Y_800MF
  | TV_RESNET18 | TV_RESNET50 | TV_RESNEXT101
  | TIMM_RESNET18 | TIMM_EFFICIENTNET | TIMM_MOBILENETV3

fun Backbone_value :: "Backbone \<Rightarrow> model_ref \<times> nat \<times> Implementation" where
  "Backbone_value CV_RESNET18 = (Name ''resnet18'', 512, CLASSY_VISION)"
| "Backbone_value CV_RESNET50 = (Name ''resnet50'', 2048, CLASSY_VISION)"
| "Backbone_value CV_RESNEXT101 = (Name ''resnext101_32x4d'', 2048, CLASSY_VISION)"
| "Backbone_value TV_EFFICIENTNET_B0 = (Callable efficientnet_b0, 1280, TORCHVISION)"
| "Backbone_value TV_MOBILENETV3 = (Callable mobilenet_v3_large, 1280, TORCHVISION)"
| "Backbone_value TV_REGNET_X_800MF = (Callable regnet_x_800mf, 672, TORCHVISION)"
| "Backbone_value TV_REGNET_Y_800MF = (Callable regnet_y_800mf, 784, TORCHVISION)"
| "Backbone_value TV_RESNET18 = (Callable resnet18, 512, TORCHVISION)"
| "Backbone_value TV_RESNET50 = (Callable resnet50, 2048, TORCHVISION)"
| "Backbone_value TV_RESNEXT101 = (Callable resnext101_32x8d, 2048, TORCHVISION)"
| "Backbone_value TIMM_RESNET18 = (Name ''resnet18'', 512, TIMM)"
| "Backbone_value TIMM_EFFICIENTNET = (Name ''efficientbet_b0'', 1280, TORCHVISION)"
| "Backbone_value TIMM_MOBILENETV3 = (Name ''mobilenetv3_large_100'', 1280, TORCHVISION)"

fun Backbone_name :: "Backbone \<Rightarrow> string" where
  "Backbone_name CV_RESNET18 = ''CV_RESNET18''"
| "Backbone_name CV_RESNET50 = ''CV_RESNET50''"
| "Backbone_name CV_RESNEXT101 = ''CV_RESNEXT101''"
| "Backbone_name TV_EFFICIENTNET_B0 = ''TV_EFFICIENTNET_B0''"
| "Backbone_name TV_MOBILENETV3 = ''TV_MOBILENETV3''"
| "Backbone_name TV_REGNET_X_800MF = ''TV_REGNET_X_800MF''"
| "Backbone_name TV_REGNET_Y_800MF = ''TV_REGNET_Y_800MF''"
| "Backbone_name TV_RESNET18 = ''TV_RESNET18''"
| "Backbone_name TV_RESNET50 = ''TV_RESNET50''"
| "Backbone_name TV_RESNEXT101 = ''TV_RESNEXT101''"
| "Backbone_name TIMM_RESNET18 = ''TIMM_RESNET18''"
| "Backbone_name TIMM_EFFICIENTNET = ''TIMM_EFFICIENTNET''"
| "Backbone_name TIMM_MOBILENETV3 = ''TIMM_MOBILENETV3''"

text \<open>Iterating over the enumeration gives its members in definition order.\<close>

definition Backbone_members :: "Backbone list" where
  "Backbone_members =
     [CV_RESNET18, CV_RESNET50, CV_RESNEXT101,
      TV_EFFICIENTNET_B0, TV_MOBILENETV3, TV_REGNET_X_800MF, TV_REGNET_Y_800MF,
      TV_RESNET18, TV_RESNET50, TV_RESNEXT101,
      TIMM_RESNET18, TIMM_EFFICIENTNET, TIMM_MOBILENETV3]"

text \<open>
  The model zoos are collaborators: \<open>build_model\<close> of classy_vision (with the
  \<^verbatim>\<open>classy_model\<close> attribute of what it returns), the torchvision constructors called
  with \<^verbatim>\<open>num_classes\<close> and \<^verbatim>\<open>zero_init_residual\<close>, and \<^verbatim>\<open>timm.create_model\<close> called
  with \<^verbatim>\<open>pretrained\<close>.
\<close>

record ('w, 'm) zoo =
  build_model :: "model_ref \<Rightarrow> string + 'w"
  classy_model :: "'w \<Rightarrow> string + 'm"
  torchvision :: "tv_constructor \<Rightarrow> int \<Rightarrow> bool \<Rightarrow> string + 'm"
  timm_create_model :: "model_ref \<Rightarrow> bool \<Rightarrow> string + 'm"

text \<open>
  \<^verbatim>\<open>Backbone.build\<close> of \<^verbatim>\<open>src/model.py\<close>. In the torchvision branch the first component
  of the value is called; calling a string raises TypeError.
\<close>

definition build :: "('w, 'm) zoo \<Rightarrow> Backbone \<Rightarrow> int \<Rightarrow> exn + 'm" where
  "build z self dims =
     (let impl = snd (snd (Backbone_value self)) in
      if impl = CLASSY_VISION then
        (case ext (build_model z (fst (Backbone_value self))) of
           Inl e \<Rightarrow> Inl e
         | Inr model \<Rightarrow> ext (classy_model z model))
      else if impl = TORCHVISION then
        (case fst (Backbone_value self) of
           Callable f \<Rightarrow> ext (torchvision z f dims True)
         | Name s \<Rightarrow> Inl TypeError)
      else if impl = TIMM then
        ext (timm_create_model z (fst (Backbone_value self)) True)
      else Inl (AssertionError (''Model implementation not handled: '' @ Backbone_name self)))"

subsection \<open>The version of \<^verbatim>\<open>sscd/models/model.py\<close>\<close>

datatype Implementation_sscd = SSCD_CLASSY_VISION | SSCD_TORCHVISION

datatype Backbone_sscd =
    SSCD_CV_RESNET18 | SSCD_CV_RESNET50 | SSCD_CV_RESNEXT101
  | SSCD_TV_EFFICIENTNET_B0 | SSCD_TV_MOBILENETV3 | SSCD_TV_REGNET_X_800MF
  | SSCD_TV_REGNET_Y_800MF
  | SSCD_TV_RESNET18 | SSCD_TV_RESNET50 | SSCD_TV_RESNEXT101

fun Backbone_sscd_value :: "Backbone_sscd \<Rightarrow> model_ref \<times> nat \<times> Implementation_sscd" where
  "Backbone_sscd_value SSCD_CV_RESNET18 = (Name ''resnet18'', 512, SSCD_CLASSY_VISION)"
| "Backbone_sscd_value SSCD_CV_RESNET50 = (Name ''resnet50'', 2048, SSCD_CLASSY_VISION)"
| "Backbone_sscd_value SSCD_CV_RESNEXT101 = (Name ''resnext101_32x4d'', 2048, SSCD_CLASSY_VISION)"
| "Backbone_sscd_value SSCD_TV_EFFICIENTNET_B0 = (Callable efficientnet_b0, 1280, SSCD_TORCHVISION)"
| "Backbone_sscd_value SSCD_TV_MOBILENETV3 = (Callable mobilenet_v3_large, 1280, SSCD_TORCHVISION)"
| "Backbone_sscd_value SSCD_TV_REGNET_X_800MF = (Callable regnet_x_800mf, 672, SSCD_TORCHVISION)"
| "Backbone_sscd_value SSCD_TV_REGNET_Y_800MF = (Callable regnet_y_800mf, 784, SSCD_TORCHVISION)"
| "Backbone_sscd_value SSCD_TV_RESNET18 = (Callable resnet18, 512, SSCD_TORCHVISION)"
| "Backbone_sscd_value SSCD_TV_RESNET50 = (Callable resnet50, 2048, SSCD_TORCHVISION)"
| "Backbone_sscd_value SSCD_TV_RESNEXT101 = (Callable resnext101_32x8d, 2048, SSCD_TORCHVISION)"

fun Backbone_sscd_name :: "Backbone_sscd \<Rightarrow> string" where
  "Backbone_sscd_name SSCD_CV_RESNET18 = ''CV_RESNET18''"
| "Backbone_sscd_name SSCD_CV_RESNET50 = ''CV_RESNET50''"
| "Backbone_sscd_name SSCD_CV_RESNEXT101 = ''CV_RESNEXT101''"
| "Backbone_sscd_name SSCD_TV_EFFICIENTNET_B0 = ''TV_EFFICIENTNET_B0''"
| "Backbone_sscd_name SSCD_TV_MOBILENETV3 = ''TV_MOBILENETV3''"
| "Backbone_sscd_name SSCD_TV_REGNET_X_800MF = ''TV_REGNET_X_800MF''"
| "Backbone_sscd_name SSCD_TV_REGNET_Y_800MF = ''TV_REGNET_Y_800MF''"
| "Backbone_sscd_name SSCD_TV_RESNET18 = ''TV_RESNET18''"
| "Backbone_sscd_name SSCD_TV_RESNET50 = ''TV_RESNET50''"
| "Backbone_sscd_name SSCD_TV_RESNEXT101 = ''TV_RESNEXT101''"

definition Backbone_sscd_members :: "Backbone_sscd list" where
  "Backbone_sscd_members =
     [SSCD_CV_RESNET18, SSCD_CV_RESNET50, SSCD_CV_RESNEXT101,
      SSCD_TV_EFFICIENTNET_B0, SSCD_TV_MOBILENETV3, SSCD_TV_REGNET_X_800MF,
      SSCD_TV_REGNET_Y_800MF,
      SSCD_TV_RESNET18, SSCD_TV_RESNET50, SSCD_TV_RESNEXT101]"

definition build_sscd :: "('w, 'm) zoo \<Rightarrow> Backbone_sscd \<Rightarrow> int \<Rightarrow> exn + 'm" where
  "build_sscd z self dims =
     (let impl = snd (snd (Backbone_sscd_value self)) in
      if impl = SSCD_CLASSY_VISION then
        (case ext (build_model z (fst (Backbone_sscd_value self))) of
           Inl e \<Rightarrow> Inl e
         | Inr model \<Rightarrow> ext (classy_model z model))
      else if impl = SSCD_TORCHVISION then
        (case fst (Backbone_sscd_value self) of
           Callable f \<Rightarrow> ext (torchvision z f dims True)
         | Name s \<Rightarrow> Inl TypeError)
      else Inl (AssertionError
                  (''Model implementation not handled: '' @ Backbone_sscd_name self)))"

subsection \<open>\<^verbatim>\<open>Model.add_arguments\<close>\<close>

text \<open>
  The part of \<^verbatim>\<open>argparse\<close> the method uses. A parser holds the actions registered so
  far and its argument groups; a group shares the parser's registry of option strings,
  so adding an option string that is registered already raises ArgumentError (the
  default conflict handler). An action keeps what \<^verbatim>\<open>add_argument\<close> was given: the
  option string, the default, the choices and the conversion named by \<^verbatim>\<open>type\<close>.
\<close>

datatype arg_conv = conv_int | conv_float

record Action =
  option_string :: string
  arg_default :: "unit pyval"
  arg_choices :: "string list option"
  arg_type :: "arg_conv option"

record ArgumentGroup =
  title :: string
  group_actions :: "Action list"

record ArgumentParser =
  parser_actions :: "Action list"
  action_groups :: "ArgumentGroup list"

text \<open>\<^verbatim>\<open>add_argument_group(title)\<close> appends an empty group and returns it (here: its index).\<close>

definition add_argument_group :: "ArgumentParser \<Rightarrow> string \<Rightarrow> ArgumentParser \<times> nat" where
  "add_argument_group p t =
     (p\<lparr>action_groups := action_groups p @ [\<lparr>title = t, group_actions = []\<rparr>]\<rparr>,
      length (action_groups p))"

definition add_argument :: "ArgumentParser \<Rightarrow> nat \<Rightarrow> Action \<Rightarrow> exn + ArgumentParser" where
  "add_argument p g a =
     (if option_string a \<in> set (map option_string (parser_actions p)) then Inl ArgumentError
      else Inr (p\<lparr>parser_actions := parser_actions p @ [a],
                  action_groups := (action_groups p)
                    [g := (action_groups p ! g)
                            \<lparr>group_actions := group_actions (action_groups p ! g) @ [a]\<rparr>]\<rparr>))"

text \<open>
  \<^verbatim>\<open>Model.add_arguments\<close> mutates the parser it is given and returns nothing: the model
  returns the parser as it is left, and the exception when a call raised.
\<close>

definition backbone_argument :: "string list \<Rightarrow> Action" where
  "backbone_argument names =
     \<lparr>option_string = ''--backbone'', arg_default = PyStr ''TV_RESNET18'',
      arg_choices = Some names, arg_type = None\<rparr>"

definition dims_argument :: Action where
  "dims_argument =
     \<lparr>option_string = ''--dims'', arg_default = PyInt 512,
      arg_choices = None, arg_type = Some conv_int\<rparr>"

definition pool_param_argument :: Action where
  "pool_param_argument =
     \<lparr>option_string = ''--pool_param'', arg_default = PyInt 3,
      arg_choices = None, arg_type = Some conv_float\<rparr>"

definition add_arguments_with ::
  "string list \<Rightarrow> ArgumentParser \<Rightarrow> ArgumentParser \<times> exn option" where
  "add_arguments_with names parser0 =
     (case add_argument_group parser0 ''Model'' of (p1, parser) \<Rightarrow>
        (case add_argument p1 parser (backbone_argument names) of
           Inl e \<Rightarrow> (p1, Some e)
         | Inr p2 \<Rightarrow>
             (case add_argument p2 parser dims_argument of
                Inl e \<Rightarrow> (p2, Some e)
              | Inr p3 \<Rightarrow>
                  (case add_argument p3 parser pool_param_argument of
                     Inl e \<Rightarrow> (p3, Some e)
                   | Inr p4 \<Rightarrow> (p4, None)))))"

text \<open>The method of \<^verbatim>\<open>src/model.py\<close> and the one of \<^verbatim>\<open>sscd/models/model.py\<close>: the same
  lines, over the enumeration of the module each stands in.\<close>

definition add_arguments :: "ArgumentParser \<Rightarrow> ArgumentParser \<times> exn option" where
  "add_arguments parser0 = add_arguments_with (map Backbone_name Backbone_members) parser0"

definition add_arguments_sscd :: "ArgumentParser \<Rightarrow> ArgumentParser \<times> exn option" where
  "add_arguments_sscd parser0 =
     add_arguments_with (map Backbone_sscd_name Backbone_sscd_members) parser0"

section \<open>\<^verbatim>\<open>sscd/datasets/disc.py\<close>: the datasets\<close>

type_synonym 'o dict = "(string \<times> 'o pyval) list"

text \<open>
  What the module imports and reads from outside: the directory listing
  \<^verbatim>\<open>get_image_paths\<close> (taken to return a fresh list on every call),
  \<^verbatim>\<open>read_ground_truth\<close>, the rows of the CSV file \<^verbatim>\<open>pd.read_csv\<close> reads (two named
  columns), the image loader, the class \<^verbatim>\<open>RepeatedAugmentationTransform\<close>, and Python's
  built-in \<^verbatim>\<open>int\<close> on a string (\<open>None\<close> when it raises ValueError).
\<close>

record ('gt, 'img) io =
  get_image_paths :: "string \<Rightarrow> string + string list"
  read_ground_truth :: "string \<Rightarrow> string + 'gt"
  read_csv :: "string \<Rightarrow> string + (string \<times> string) list"
  default_loader :: "string \<Rightarrow> string + 'img"
  RepeatedAugmentationTransform ::
    "('img \<Rightarrow> string + 'img) \<Rightarrow> nat \<Rightarrow> string + ('img dict \<Rightarrow> string + 'img dict)"
  py_int :: "string \<Rightarrow> int option"

text \<open>Sequencing: the calls made so far, and the exception or the value.\<close>

definition and_then ::
  "'c list \<times> (exn + 'a) \<Rightarrow> ('a \<Rightarrow> 'c list \<times> (exn + 'b)) \<Rightarrow> 'c list \<times> (exn + 'b)" where
  "and_then m f =
     (case snd m of
        Inl e \<Rightarrow> (fst m, Inl e)
      | Inr x \<Rightarrow> (fst m @ fst (f x), snd (f x)))"

definition bind_exn :: "exn + 'a \<Rightarrow> ('a \<Rightarrow> exn + 'b) \<Rightarrow> exn + 'b" where
  "bind_exn m f = (case m of Inl e \<Rightarrow> Inl e | Inr x \<Rightarrow> f x)"

subsection \<open>\<^verbatim>\<open>DISCTrainDataset\<close>\<close>

text \<open>What \<^verbatim>\<open>self.img_transform\<close> is called on: an image when supervised, a record
  otherwise. Calling it on the other kind is a failure inside the collaborator.\<close>

datatype 'img callable =
    OnImage "'img \<Rightarrow> string + 'img"
  | OnRecord "'img dict \<Rightarrow> string + 'img dict"

fun call_on_image :: "'img callable option \<Rightarrow> 'img \<Rightarrow> exn + 'img" where
  "call_on_image None x = Inl TypeError"
| "call_on_image (Some (OnImage f)) x = ext (f x)"
| "call_on_image (Some (OnRecord g)) x = Inl (Raised ''record transform called on an image'')"

fun call_on_record :: "'img callable \<Rightarrow> 'img dict \<Rightarrow> exn + 'img dict" where
  "call_on_record (OnRecord g) r = ext (g r)"
| "call_on_record (OnImage f) r = Inl (Raised ''image transform called on a record'')"

record dataset =
  files :: "string list"

text \<open>
  In the unsupervised mode the attributes \<^verbatim>\<open>query_paths\<close>, \<^verbatim>\<open>ref_paths\<close> and
  \<^verbatim>\<open>diff_reference_paths\<close> are not set and nothing reads them; the record holds empty
  values there. \<^verbatim>\<open>diff_reference_paths\<close> is built by iterating over a set, so its order
  is not fixed by the source: it is kept as a set.
\<close>

record 'img DISCTrainDataset = dataset +
  train_dataset_path :: string
  query_dataset_path :: string
  ref_dataset_path :: string
  supervised :: bool
  img_transform :: "'img callable option"
  query_paths :: "string list"
  ref_paths :: "string list"
  diff_reference_paths :: "string set"
  loader :: "string \<Rightarrow> string + 'img"

definition DISCTrainDataset_init ::
  "('gt, 'img) io \<Rightarrow> (int \<Rightarrow> string + ('img \<Rightarrow> string + 'img)) \<Rightarrow>
   string \<Rightarrow> string \<Rightarrow> string \<Rightarrow> int \<Rightarrow> bool \<Rightarrow> exn + 'img DISCTrainDataset" where
  "DISCTrainDataset_init env get_transformations train_path0 query_path0 ref_path0
       train_image_size supervised0 =
     bind_exn (ext (get_image_paths env train_path0)) (\<lambda>image_paths.
       if \<not> supervised0 then
         bind_exn (ext (get_transformations train_image_size)) (\<lambda>transforms.
         bind_exn (ext (RepeatedAugmentationTransform env transforms 2)) (\<lambda>repeated.
           Inr \<lparr>files = image_paths,
                train_dataset_path = train_path0, query_dataset_path = query_path0,
                ref_dataset_path = ref_path0, supervised = supervised0,
                img_transform = Some (OnRecord repeated),
                query_paths = [], ref_paths = [], diff_reference_paths = {},
                loader = default_loader env\<rparr>))
       else
         bind_exn (ext (get_transformations train_image_size)) (\<lambda>transforms.
         bind_exn (ext (read_csv env
                     (os_path_join ''/nfs_shared_/MLVD/DISC'' ''final_ground_truth.csv'')))
           (\<lambda>rows.
              let all_ref_ids = (\<lambda>i. ''R'' @ format_0d 6 (int i)) ` {0..<1000000};
                  diff_ref_ids = all_ref_ids - set (map snd rows)
              in Inr \<lparr>files = image_paths,
                   train_dataset_path = train_path0, query_dataset_path = query_path0,
                   ref_dataset_path = ref_path0, supervised = supervised0,
                   img_transform = Some (OnImage transforms),
                   query_paths = map (\<lambda>i. os_path_join query_path0 (i @ ''.jpg''))
                                   (map fst rows),
                   ref_paths = map (\<lambda>i. os_path_join ref_path0 (i @ ''.jpg''))
                                 (map snd rows),
                   diff_reference_paths =
                     (\<lambda>rid. os_path_join ref_path0 (rid @ ''.jpg'')) ` diff_ref_ids,
                   loader = default_loader env\<rparr>)))"

definition DISCTrainDataset_len :: "'img DISCTrainDataset \<Rightarrow> nat" where
  "DISCTrainDataset_len self =
     (if supervised self then length (query_paths self) else length (files self))"

definition DISCTrainDataset_getitem :: "'img DISCTrainDataset \<Rightarrow> int \<Rightarrow> exn + 'img dict" where
  "DISCTrainDataset_getitem self idx =
     (if \<not> (0 \<le> idx \<and> idx < int (DISCTrainDataset_len self)) then Inl (AssertionError '''')
      else if supervised self then
        bind_exn (py_getitem (query_paths self) idx) (\<lambda>query_file.
        bind_exn (ext (loader self query_file)) (\<lambda>img.
        bind_exn (py_getitem (ref_paths self) idx) (\<lambda>ref_file.
        bind_exn (ext (loader self ref_file)) (\<lambda>ref_img.
        bind_exn (call_on_image (img_transform self) img) (\<lambda>img_0.
        bind_exn (call_on_image (img_transform self) ref_img) (\<lambda>img_1.
          Inr [(''input0'', PyObj img_0), (''input1'', PyObj img_1),
               (''instance_id'', PyInt idx)]))))))
      else
        bind_exn (py_getitem (files self) idx) (\<lambda>file.
        bind_exn (ext (loader self file)) (\<lambda>img.
          let record0 = [(''input'', PyObj img), (''instance_id'', PyInt idx)]
          in case img_transform self of
               None \<Rightarrow> Inr record0
             | Some t \<Rightarrow> call_on_record t record0)))"

subsection \<open>\<^verbatim>\<open>DISCEvalDataset\<close>\<close>

definition SPLIT_REF :: int where "SPLIT_REF = 0"
definition SPLIT_QUERY :: int where "SPLIT_QUERY = 1"
definition SPLIT_TRAIN :: int where "SPLIT_TRAIN = 2"

record ('gt, 'img) DISCEvalDataset = dataset +
  metadata :: "'img dict list"
  gt :: 'gt
  transform :: "('img \<Rightarrow> string + 'img) option"

text \<open>The reads from the file system, in the order they are made.\<close>

datatype fs_call = GetImagePaths string | ReadGroundTruth string

text \<open>The dict \<^verbatim>\<open>read_files\<close> builds for one name; \<^verbatim>\<open>int(name[1:])\<close> may raise.\<close>

definition metadata_entry :: "('gt, 'img) io \<Rightarrow> int \<Rightarrow> string \<Rightarrow> 'img dict option" where
  "metadata_entry env split name0 =
     (case py_int env (drop 1 name0) of
        None \<Rightarrow> None
      | Some n \<Rightarrow>
          Some [(''name'', PyStr name0), (''split'', PyInt split),
                (''image_num'', PyInt n), (''target'', PyInt (- 1))])"

definition read_files ::
  "('gt, 'img) io \<Rightarrow> string \<Rightarrow> int \<Rightarrow> fs_call list \<times> (exn + string list \<times> 'img dict list)" where
  "read_files env path split =
     and_then ([GetImagePaths path], ext (get_image_paths env path)) (\<lambda>image_paths.
       let names = map (\<lambda>file. fst (os_path_splitext (os_path_basename file))) image_paths
       in case those (map (metadata_entry env split) names) of
            None \<Rightarrow> ([], Inl ValueError)
          | Some entries \<Rightarrow> ([], Inr (image_paths, entries)))"

text \<open>
  \<^verbatim>\<open>DISCEvalDataset.__init__\<close>. The four optional path parameters are assigned before
  they are read. \<^verbatim>\<open>if train_path:\<close> tests a string or None.
\<close>

definition DISCEvalDataset_init ::
  "('gt, 'img) io \<Rightarrow> string \<Rightarrow> ('img \<Rightarrow> string + 'img) option \<Rightarrow> bool \<Rightarrow>
   string option \<Rightarrow> string option \<Rightarrow> string option \<Rightarrow> string option \<Rightarrow>
   fs_call list \<times> (exn + ('gt, 'img) DISCEvalDataset)" where
  "DISCEvalDataset_init env path transform0 include_train query_path ref_path train_path gt_path =
     (let query_path = os_path_join path ''final_queries'';
          ref_path = os_path_join path ''references'';
          train_path = (if include_train then Some (os_path_join path ''train'') else None);
          gt_path = os_path_join path ''gt_1k.csv''
      in
      and_then (read_files env ref_path SPLIT_REF) (\<lambda>(ref_files, ref_metadata).
      and_then (read_files env query_path SPLIT_QUERY) (\<lambda>(query_files, query_metadata).
      and_then
        (case train_path of
           None \<Rightarrow> ([], Inr (ref_files @ query_files, ref_metadata @ query_metadata))
         | Some tp \<Rightarrow>
             if tp = [] then ([], Inr (ref_files @ query_files, ref_metadata @ query_metadata))
             else
               and_then (read_files env tp SPLIT_TRAIN) (\<lambda>(train_files, train_metadata).
                 ([], Inr (ref_files @ query_files @ train_files,
                           ref_metadata @ query_metadata @ train_metadata))))
        (\<lambda>(all_files, all_metadata).
      and_then ([ReadGroundTruth gt_path], ext (read_ground_truth env gt_path)) (\<lambda>ground_truth.
        ([], Inr \<lparr>files = all_files, metadata = all_metadata, gt = ground_truth,
                  transform = transform0\<rparr>))))))"

definition DISCEvalDataset_getitem ::
  "('gt, 'img) io \<Rightarrow> ('gt, 'img) DISCEvalDataset \<Rightarrow> int \<Rightarrow> exn + 'img dict" where
  "DISCEvalDataset_getitem env self idx =
     bind_exn (py_getitem (files self) idx) (\<lambda>filename.
     bind_exn (ext (default_loader env filename)) (\<lambda>img.
     bind_exn (case transform self of None \<Rightarrow> Inr img | Some t \<Rightarrow> ext (t img)) (\<lambda>img'.
       let sample = [(''input'', PyObj img'), (''instance_id'', PyInt idx)]
       in bind_exn (py_getitem (metadata self) idx) (\<lambda>entry.
            Inr (dict_update sample entry)))))"

definition DISCEvalDataset_len :: "('gt, 'img) DISCEvalDataset \<Rightarrow> nat" where
  "DISCEvalDataset_len self = length (files self)"

subsection \<open>Retrieval evaluation\<close>

text \<open>
  The matching and metrics libraries. A call takes the query embeddings and names, the
  reference embeddings and names, \<open>k\<close> or \<open>num_results\<close>, \<open>ngpu\<close>, and the remaining
  keyword arguments. Of the \<^verbatim>\<open>Metrics\<close> object the three attributes that are read.
\<close>

record 'o Metrics =
  average_precision :: "'o pyval"
  recall_at_rank1 :: "'o pyval"
  recall_at_p90 :: "'o pyval"

record ('row, 'gt, 'pred, 'o) isc =
  knn_match_and_make_predictions ::
    "'row list \<Rightarrow> string list \<Rightarrow> 'row list \<Rightarrow> string list \<Rightarrow> int \<Rightarrow> int \<Rightarrow> 'o dict
     \<Rightarrow> string + 'pred"
  match_and_make_predictions ::
    "'row list \<Rightarrow> string list \<Rightarrow> 'row list \<Rightarrow> string list \<Rightarrow> int \<Rightarrow> int \<Rightarrow> 'o dict
     \<Rightarrow> string + 'pred"
  evaluate :: "'gt \<Rightarrow> 'pred \<Rightarrow> string + 'o Metrics"

datatype ('row, 'gt, 'pred, 'o) isc_call =
    KnnMatchAndMakePredictions "'row list" "string list" "'row list" "string list" int int "'o dict"
  | MatchAndMakePredictions "'row list" "string list" "'row list" "string list" int int "'o dict"
  | Evaluate 'gt 'pred

definition has_key :: "('k \<times> 'v) list \<Rightarrow> 'k \<Rightarrow> bool" where
  "has_key d k = (k \<in> set (map fst d))"

text \<open>
  \<^verbatim>\<open>retrieval_eval_splits\<close>. The three keyword parameters with defaults are \<open>None\<close>
  when the caller does not pass them; \<open>kwargs\<close> holds the other keyword arguments.
  Passing a keyword both by name and through \<^verbatim>\<open>**kwargs\<close> raises TypeError before the
  callee runs.
\<close>

definition retrieval_eval_splits ::
  "('row, 'gt, 'pred, 'o) isc \<Rightarrow> ('gt, 'img) DISCEvalDataset \<Rightarrow>
   int list \<Rightarrow> 'row list \<Rightarrow> int list \<Rightarrow> 'row list \<Rightarrow>
   bool option \<Rightarrow> int option \<Rightarrow> bool option \<Rightarrow> 'o dict \<Rightarrow>
   ('row, 'gt, 'pred, 'o) isc_call list \<times> (exn + 'o dict)" where
  "retrieval_eval_splits lib self query_ids query_embeddings ref_ids ref_embeddings
       use_gpu k global_candidates kwargs =
     (let use_gpu = (case use_gpu of None \<Rightarrow> False | Some b \<Rightarrow> b);
          k = (case k of None \<Rightarrow> 10 | Some n \<Rightarrow> n);
          global_candidates = (case global_candidates of None \<Rightarrow> False | Some b \<Rightarrow> b);
          query_names = map (\<lambda>i. ''Q'' @ format_0d 5 i) query_ids;
          ref_names = map (\<lambda>i. ''R'' @ format_0d 6 i) ref_ids
      in
      and_then
        (if global_candidates then
           if has_key kwargs ''num_results'' \<or> has_key kwargs ''ngpu'' then ([], Inl TypeError)
           else
             ([MatchAndMakePredictions query_embeddings query_names ref_embeddings ref_names
                 (k * int (length query_names)) (if use_gpu then - 1 else 0) kwargs],
              ext (match_and_make_predictions lib query_embeddings query_names
                     ref_embeddings ref_names
                     (k * int (length query_names)) (if use_gpu then - 1 else 0) kwargs))
         else
           if has_key kwargs ''k'' \<or> has_key kwargs ''ngpu'' then ([], Inl TypeError)
           else
             ([KnnMatchAndMakePredictions query_embeddings query_names ref_embeddings ref_names
                 k (if use_gpu then - 1 else 0) kwargs],
              ext (knn_match_and_make_predictions lib query_embeddings query_names
                     ref_embeddings ref_names
                     k (if use_gpu then - 1 else 0) kwargs)))
        (\<lambda>predictions.
      and_then ([Evaluate (gt self) predictions], ext (evaluate lib (gt self) predictions))
        (\<lambda>results.
        ([], Inr [(''uAP'', average_precision results),
                  (''accuracy-at-1'', recall_at_rank1 results),
                  (''recall-at-p90'', py_or (recall_at_p90 results) (PyFloat (Finite 0)))]))))"

text \<open>\<^verbatim>\<open>xs[mask]\<close> with a boolean mask: the entries where the mask is true, in order; a
  mask of another length raises IndexError.\<close>

definition mask_index :: "'a list \<Rightarrow> bool list \<Rightarrow> exn + 'a list" where
  "mask_index xs bs =
     (if length bs \<noteq> length xs then Inl IndexError
      else Inr (map fst (filter snd (zip xs bs))))"

text \<open>
  \<^verbatim>\<open>retrieval_eval\<close>. Its \<^verbatim>\<open>**kwargs\<close> are the last four arguments: the three that
  \<^verbatim>\<open>retrieval_eval_splits\<close> names, when given, and the others; one of the others named
  like a positional parameter of \<^verbatim>\<open>retrieval_eval_splits\<close> raises TypeError at the call.
\<close>

definition retrieval_eval ::
  "('row, 'gt, 'pred, 'o) isc \<Rightarrow> ('gt, 'img) DISCEvalDataset \<Rightarrow>
   'row list \<Rightarrow> int list \<Rightarrow> int list \<Rightarrow>
   bool option \<Rightarrow> int option \<Rightarrow> bool option \<Rightarrow> 'o dict \<Rightarrow>
   ('row, 'gt, 'pred, 'o) isc_call list \<times> (exn + 'o dict)" where
  "retrieval_eval lib self embedding_array targets split use_gpu k global_candidates kwargs =
     (let query_mask = map (\<lambda>s. s = SPLIT_QUERY) split;
          ref_mask = map (\<lambda>s. s = SPLIT_REF) split
      in
      case mask_index targets query_mask of Inl e \<Rightarrow> ([], Inl e) | Inr query_ids \<Rightarrow>
      case mask_index embedding_array query_mask of Inl e \<Rightarrow> ([], Inl e)
        | Inr query_embeddings \<Rightarrow>
      case mask_index targets ref_mask of Inl e \<Rightarrow> ([], Inl e) | Inr ref_ids \<Rightarrow>
      case mask_index embedding_array ref_mask of Inl e \<Rightarrow> ([], Inl e)
        | Inr ref_embeddings \<Rightarrow>
      if list_ex (has_key kwargs)
           [''self'', ''query_ids'', ''query_embeddings'', ''ref_ids'', ''ref_embeddings'']
      then ([], Inl TypeError)
      else retrieval_eval_splits lib self query_ids query_embeddings ref_ids ref_embeddings
             use_gpu k global_candidates kwargs)"

section \<open>Test doubles\<close>

text \<open>
  Concrete collaborators, used to run the model on examples: a metrics library that
  returns given metrics and a matcher that returns what it was asked, a file system with
  three directories under \<^verbatim>\<open>/data\<close>, a loader that returns the path it was given, an
  augmentation that tags the image, a parser of plain decimal digits standing for
  \<^verbatim>\<open>int\<close>, and the dataset the constructor builds from them.
\<close>

definition demo_lib ::
  "unit Metrics \<Rightarrow> (nat, string, string list \<times> string list \<times> int \<times> int, unit) isc" where
  "demo_lib m =
     \<lparr>knn_match_and_make_predictions = (\<lambda>qe qn re rn n ngpu kw. Inr (qn, rn, n, ngpu)),
      match_and_make_predictions = (\<lambda>qe qn re rn n ngpu kw. Inr (qn, rn, n, ngpu)),
      evaluate = (\<lambda>g p. Inr m)\<rparr>"

definition demo_metrics :: "unit pyval \<Rightarrow> unit Metrics" where
  "demo_metrics r =
     \<lparr>average_precision = PyFloat (Finite (1 / 2)),
      recall_at_rank1 = PyFloat (Finite (3 / 4)),
      recall_at_p90 = r\<rparr>"

definition digit_value :: "char \<Rightarrow> int option" where
  "digit_value c =
     (if c \<in> set ''0123456789''
      then Some (int (length (takeWhile (\<lambda>d. d \<noteq> c) ''0123456789'')))
      else None)"

fun digits_value :: "int \<Rightarrow> string \<Rightarrow> int option" where
  "digits_value acc [] = Some acc"
| "digits_value acc (c # cs) =
     (case digit_value c of None \<Rightarrow> None | Some d \<Rightarrow> digits_value (10 * acc + d) cs)"

definition demo_int :: "string \<Rightarrow> int option" where
  "demo_int s = (if s = [] then None else digits_value 0 s)"

definition demo_io :: "(string, string) io" where
  "demo_io =
     \<lparr>get_image_paths = (\<lambda>p.
        if p = ''/data/references''
          then Inr [''/data/references/R000001.jpg'', ''/data/references/R000002.jpg'']
        else if p = ''/data/final_queries'' then Inr [''/data/final_queries/Q00007.jpg'']
        else if p = ''/data/train'' then Inr [''/data/train/T000003.jpg'']
        else Inl ''no such directory''),
      read_ground_truth = (\<lambda>p. Inr p),
      read_csv = (\<lambda>p. Inr [(''Q00007'', ''R000002''), (''Q00008'', ''R000001'')]),
      default_loader = (\<lambda>p. Inr p),
      RepeatedAugmentationTransform = (\<lambda>t copies. Inr (\<lambda>r. Inr r)),
      py_int = demo_int\<rparr>"

definition demo_dataset :: "(string, string) DISCEvalDataset" where
  "demo_dataset =
     \<lparr>files = [''/data/references/R000001.jpg'', ''/data/references/R000002.jpg'',
               ''/data/final_queries/Q00007.jpg'', ''/data/train/T000003.jpg''],
      metadata =
        [[(''name'', PyStr ''R000001''), (''split'', PyInt 0),
          (''image_num'', PyInt 1), (''target'', PyInt (- 1))],
         [(''name'', PyStr ''R000002''), (''split'', PyInt 0),
          (''image_num'', PyInt 2), (''target'', PyInt (- 1))],
         [(''name'', PyStr ''Q00007''), (''split'', PyInt 1),
          (''image_num'', PyInt 7), (''target'', PyInt (- 1))],
         [(''name'', PyStr ''T000003''), (''split'', PyInt 2),
          (''image_num'', PyInt 3), (''target'', PyInt (- 1))]],
      gt = ''/data/gt_1k.csv'',
      transform = None\<rparr>"

definition demo_augmentations :: "int \<Rightarrow> string + (string \<Rightarrow> string + string)" where
  "demo_augmentations image_size = Inr (\<lambda>img. Inr (''aug:'' @ img))"

definition demo_zoo :: "(string, string) zoo" where
  "demo_zoo =
     \<lparr>build_model = (\<lambda>r. Inr ''classy''),
      classy_model = (\<lambda>w. Inr w),
      torchvision = (\<lambda>f dims z. Inr ''torchvision''),
      timm_create_model = (\<lambda>r pretrained. Inr ''timm'')\<rparr>"

definition demo_parser :: ArgumentParser where
  "demo_parser =
     \<lparr>parser_actions =
        [\<lparr>option_string = ''--help'', arg_default = PyNone,
          arg_choices = None, arg_type = None\<rparr>],
      action_groups =
        [\<lparr>title = ''options'',
          group_actions =
            [\<lparr>option_string = ''--help'', arg_default = PyNone,
              arg_choices = None, arg_type = None\<rparr>]\<rparr>]\<rparr>"

section \<open>Basic facts\<close>

lemma ext_Inr_iff [simp]: "ext r = Inr x \<longleftrightarrow> r = Inr x"
  by (cases r) (simp_all add: ext_def)

lemma ext_Inl_iff: "ext r = Inl e \<longleftrightarrow> (\<exists>msg. r = Inl msg \<and> e = Raised msg)"
  by (cases r) (auto simp add: ext_def)

lemma bind_exn_Inr_iff: "bind_exn m f = Inr y \<longleftrightarrow> (\<exists>x. m = Inr x \<and> f x = Inr y)"
  by (cases m) (simp_all add: bind_exn_def)

lemma bind_exn_Inl_iff:
  "bind_exn m f = Inl e \<longleftrightarrow> m = Inl e \<or> (\<exists>x. m = Inr x \<and> f x = Inl e)"
  by (cases m) (simp_all add: bind_exn_def)

lemma and_then_call:
  "and_then (cs, ext r) f =
     (case r of Inl msg \<Rightarrow> (cs, Inl (Raised msg)) | Inr x \<Rightarrow> (cs @ fst (f x), snd (f x)))"
  by (cases r) (simp_all add: and_then_def ext_def)

lemma and_then_raise: "and_then (cs, Inl e) f = (cs, Inl e)"
  by (simp add: and_then_def)

lemma and_then_return: "and_then (cs, Inr x) f = (cs @ fst (f x), snd (f x))"
  by (simp add: and_then_def)

lemma snd_and_then_Inr_iff:
  "snd (and_then m f) = Inr y \<longleftrightarrow> (\<exists>x. snd m = Inr x \<and> snd (f x) = Inr y)"
  by (cases "snd m") (simp_all add: and_then_def)

lemma default_flag: "(case b of None \<Rightarrow> False | Some x \<Rightarrow> x) = (b = Some True)"
  by (cases b) simp_all

lemma format_Q7: "format_0d 5 7 = ''00007''"
  by code_simp

lemma format_R1: "format_0d 6 1 = ''000001''"
  by code_simp

lemma format_R2: "format_0d 6 2 = ''000002''"
  by code_simp

lemma format_negative: "format_0d 5 (- 7) = ''-0007''"
  by code_simp

section \<open>Retrieval evaluation: the result and the calls\<close>

lemma retrieval_eval_splits_returns:
  assumes "snd (retrieval_eval_splits lib self qi qe ri re ug k gc kw) = Inr d"
  shows "\<exists>preds results. evaluate lib (gt self) preds = Inr results \<and>
           d = [(''uAP'', average_precision results),
                (''accuracy-at-1'', recall_at_rank1 results),
                (''recall-at-p90'', py_or (recall_at_p90 results) (PyFloat (Finite 0)))]"
  using assms unfolding retrieval_eval_splits_def Let_def
  by (auto simp add: snd_and_then_Inr_iff)

lemma retrieval_eval_returns:
  assumes "snd (retrieval_eval lib self emb targets split ug k gc kw) = Inr d"
  shows "\<exists>qi qe ri re. snd (retrieval_eval_splits lib self qi qe ri re ug k gc kw) = Inr d"
  using assms unfolding retrieval_eval_def Let_def
  by (auto split: sum.splits if_splits)

text \<open>
  A call of \<^verbatim>\<open>retrieval_eval_splits\<close> that passes a keyword twice raises TypeError
  before anything is called. Any other call is one call of a matcher, then (when the
  matcher returned) one call of \<^verbatim>\<open>evaluate\<close>.
\<close>

lemma retrieval_eval_splits_duplicate:
  assumes "if gc = Some True then has_key kw ''num_results'' \<or> has_key kw ''ngpu''
           else has_key kw ''k'' \<or> has_key kw ''ngpu''"
  shows "retrieval_eval_splits lib self qi qe ri re ug k gc kw = ([], Inl TypeError)"
proof (cases "gc = Some True")
  case True
  with assms show ?thesis
    unfolding retrieval_eval_splits_def Let_def default_flag
    by (simp add: and_then_raise)
next
  case False
  with assms show ?thesis
    unfolding retrieval_eval_splits_def Let_def default_flag
    by (simp add: and_then_raise)
qed

lemma retrieval_eval_splits_trace:
  assumes "\<not> (if gc = Some True then has_key kw ''num_results'' \<or> has_key kw ''ngpu''
           else has_key kw ''k'' \<or> has_key kw ''ngpu'')"
  shows "retrieval_eval_splits lib self qi qe ri re ug k gc kw =
    (let qn = map (\<lambda>i. ''Q'' @ format_0d 5 i) qi;
         rn = map (\<lambda>i. ''R'' @ format_0d 6 i) ri;
         ngpu = (if ug = Some True then - 1 else 0);
         kk = (case k of None \<Rightarrow> 10 | Some n \<Rightarrow> n);
         call = (if gc = Some True
                 then MatchAndMakePredictions qe qn re rn (kk * int (length qi)) ngpu kw
                 else KnnMatchAndMakePredictions qe qn re rn kk ngpu kw);
         answer = (if gc = Some True
                   then match_and_make_predictions lib qe qn re rn (kk * int (length qi)) ngpu kw
                   else knn_match_and_make_predictions lib qe qn re rn kk ngpu kw)
     in case answer of
          Inl msg \<Rightarrow> ([call], Inl (Raised msg))
        | Inr preds \<Rightarrow>
            (case evaluate lib (gt self) preds of
               Inl msg \<Rightarrow> ([call, Evaluate (gt self) preds], Inl (Raised msg))
             | Inr results \<Rightarrow>
                 ([call, Evaluate (gt self) preds],
                  Inr [(''uAP'', average_precision results),
                       (''accuracy-at-1'', recall_at_rank1 results),
                       (''recall-at-p90'',
                        py_or (recall_at_p90 results) (PyFloat (Finite 0)))])))"
proof (cases "gc = Some True")
  case True
  with assms show ?thesis
    unfolding retrieval_eval_splits_def Let_def default_flag
    by (simp add: and_then_call and_then_return split: sum.splits)
next
  case False
  with assms show ?thesis
    unfolding retrieval_eval_splits_def Let_def default_flag
    by (simp add: and_then_call and_then_return split: sum.splits)
qed


lemma has_key_Nil [simp]: "\<not> has_key [] key"
  by (simp add: has_key_def)

lemma demo_lib_simps [simp]:
  "knn_match_and_make_predictions (demo_lib m) qe qn re rn n ngpu kw = Inr (qn, rn, n, ngpu)"
  "match_and_make_predictions (demo_lib m) qe qn re rn n ngpu kw = Inr (qn, rn, n, ngpu)"
  "evaluate (demo_lib m) g p = Inr m"
  by (simp_all add: demo_lib_def)

lemma demo_run:
  "retrieval_eval_splits (demo_lib m) demo_dataset [7] [11] [1, 2] [10, 12] ug k gc [] =
     ([if gc = Some True
       then MatchAndMakePredictions [11] [''Q00007''] [10, 12] [''R000001'', ''R000002'']
              (case k of None \<Rightarrow> 10 | Some n \<Rightarrow> n) (if ug = Some True then - 1 else 0) []
       else KnnMatchAndMakePredictions [11] [''Q00007''] [10, 12] [''R000001'', ''R000002'']
              (case k of None \<Rightarrow> 10 | Some n \<Rightarrow> n) (if ug = Some True then - 1 else 0) [],
       Evaluate ''/data/gt_1k.csv''
         ([''Q00007''], [''R000001'', ''R000002''],
          case k of None \<Rightarrow> 10 | Some n \<Rightarrow> n, if ug = Some True then - 1 else 0)],
      Inr [(''uAP'', average_precision m),
           (''accuracy-at-1'', recall_at_rank1 m),
           (''recall-at-p90'', py_or (recall_at_p90 m) (PyFloat (Finite 0)))])"
  by (simp add: retrieval_eval_splits_trace Let_def format_Q7 format_R1 format_R2
      demo_dataset_def)

text \<open>
  C1. Whenever \<^verbatim>\<open>retrieval_eval_splits\<close> (or \<^verbatim>\<open>retrieval_eval\<close>, which ends in it) returns,
  it returns a dictionary with exactly the keys \<^verbatim>\<open>uAP\<close>, \<^verbatim>\<open>accuracy-at-1\<close> and
  \<^verbatim>\<open>recall-at-p90\<close>, in this order, read off one result of \<^verbatim>\<open>evaluate\<close> on the stored
  ground truth: \<^verbatim>\<open>uAP\<close> is its \<^verbatim>\<open>average_precision\<close>, \<^verbatim>\<open>accuracy-at-1\<close> its
  \<^verbatim>\<open>recall_at_rank1\<close>, and \<^verbatim>\<open>recall-at-p90\<close> is its \<^verbatim>\<open>recall_at_p90\<close> or the float 0.0.
  And it does return such a dictionary whenever no keyword is passed twice, the matcher
  returns predictions and \<^verbatim>\<open>evaluate\<close> returns metrics for them.
\<close>

theorem retrieval_metrics_dict:
  "(snd (retrieval_eval_splits lib self qi qe ri re ug k gc kw) = Inr d
      \<or> snd (retrieval_eval lib self emb targets split ug k gc kw) = Inr d \<longrightarrow>
    (\<exists>preds results.
       evaluate lib (gt self) preds = Inr results \<and>
       map fst d = [''uAP'', ''accuracy-at-1'', ''recall-at-p90''] \<and>
       map_of d ''uAP'' = Some (average_precision results) \<and>
       map_of d ''accuracy-at-1'' = Some (recall_at_rank1 results) \<and>
       (map_of d ''recall-at-p90'' = Some (recall_at_p90 results) \<or>
        map_of d ''recall-at-p90'' = Some (PyFloat (Finite 0))))) \<and>
   (let qn = map (\<lambda>i. ''Q'' @ format_0d 5 i) qi;
        rn = map (\<lambda>i. ''R'' @ format_0d 6 i) ri;
        ngpu = (if ug = Some True then - 1 else 0);
        kk = (case k of None \<Rightarrow> 10 | Some n \<Rightarrow> n);
        answer = (if gc = Some True
                  then match_and_make_predictions lib qe qn re rn (kk * int (length qn)) ngpu kw
                  else knn_match_and_make_predictions lib qe qn re rn kk ngpu kw)
    in \<not> (if gc = Some True then has_key kw ''num_results'' \<or> has_key kw ''ngpu''
           else has_key kw ''k'' \<or> has_key kw ''ngpu'') \<and>
       answer = Inr preds' \<and> evaluate lib (gt self) preds' = Inr results' \<longrightarrow>
       (\<exists>d'. snd (retrieval_eval_splits lib self qi qe ri re ug k gc kw) = Inr d' \<and>
             map fst d' = [''uAP'', ''accuracy-at-1'', ''recall-at-p90'']))"
proof (intro conjI impI)
  assume "snd (retrieval_eval_splits lib self qi qe ri re ug k gc kw) = Inr d
      \<or> snd (retrieval_eval lib self emb targets split ug k gc kw) = Inr d"
  then obtain qi' qe' ri' re'
    where "snd (retrieval_eval_splits lib self qi' qe' ri' re' ug k gc kw) = Inr d"
    using retrieval_eval_returns by blast
  then obtain preds results where ev: "evaluate lib (gt self) preds = Inr results"
    and d: "d = [(''uAP'', average_precision results),
                 (''accuracy-at-1'', recall_at_rank1 results),
                 (''recall-at-p90'', py_or (recall_at_p90 results) (PyFloat (Finite 0)))]"
    using retrieval_eval_splits_returns by blast
  from d have "map fst d = [''uAP'', ''accuracy-at-1'', ''recall-at-p90'']"
    and "map_of d ''uAP'' = Some (average_precision results)"
    and "map_of d ''accuracy-at-1'' = Some (recall_at_rank1 results)"
    and "map_of d ''recall-at-p90'' = Some (recall_at_p90 results) \<or>
         map_of d ''recall-at-p90'' = Some (PyFloat (Finite 0))"
    by (simp_all add: py_or_def)
  with ev show "\<exists>preds results.
       evaluate lib (gt self) preds = Inr results \<and>
       map fst d = [''uAP'', ''accuracy-at-1'', ''recall-at-p90''] \<and>
       map_of d ''uAP'' = Some (average_precision results) \<and>
       map_of d ''accuracy-at-1'' = Some (recall_at_rank1 results) \<and>
       (map_of d ''recall-at-p90'' = Some (recall_at_p90 results) \<or>
        map_of d ''recall-at-p90'' = Some (PyFloat (Finite 0)))"
    by (intro exI [of _ preds] exI [of _ results] conjI)
next
  show "let qn = map (\<lambda>i. ''Q'' @ format_0d 5 i) qi;
        rn = map (\<lambda>i. ''R'' @ format_0d 6 i) ri;
        ngpu = (if ug = Some True then - 1 else 0);
        kk = (case k of None \<Rightarrow> 10 | Some n \<Rightarrow> n);
        answer = (if gc = Some True
                  then match_and_make_predictions lib qe qn re rn (kk * int (length qn)) ngpu kw
                  else knn_match_and_make_predictions lib qe qn re rn kk ngpu kw)
    in \<not> (if gc = Some True then has_key kw ''num_results'' \<or> has_key kw ''ngpu''
           else has_key kw ''k'' \<or> has_key kw ''ngpu'') \<and>
       answer = Inr preds' \<and> evaluate lib (gt self) preds' = Inr results' \<longrightarrow>
       (\<exists>d'. snd (retrieval_eval_splits lib self qi qe ri re ug k gc kw) = Inr d' \<and>
             map fst d' = [''uAP'', ''accuracy-at-1'', ''recall-at-p90''])"
  proof (cases "if gc = Some True then has_key kw ''num_results'' \<or> has_key kw ''ngpu''
           else has_key kw ''k'' \<or> has_key kw ''ngpu''")
    case True
    then show ?thesis unfolding Let_def by simp
  next
    case False
    show ?thesis
      unfolding Let_def retrieval_eval_splits_trace [OF False]
      by (simp split: sum.splits)
  qed
qed

theorem retrieval_metrics_dict_witness:
  "\<exists>d. snd (retrieval_eval_splits (demo_lib (demo_metrics PyNone)) demo_dataset
               [7] [11] [1, 2] [10, 12] None None None []) = Inr d \<and>
     d = [(''uAP'', PyFloat (Finite (1 / 2))),
          (''accuracy-at-1'', PyFloat (Finite (3 / 4))),
          (''recall-at-p90'', PyFloat (Finite 0))] \<and>
     (\<exists>preds results.
        evaluate (demo_lib (demo_metrics PyNone)) (gt demo_dataset) preds = Inr results \<and>
        map fst d = [''uAP'', ''accuracy-at-1'', ''recall-at-p90''] \<and>
        map_of d ''uAP'' = Some (average_precision results) \<and>
        map_of d ''accuracy-at-1'' = Some (recall_at_rank1 results) \<and>
        (map_of d ''recall-at-p90'' = Some (recall_at_p90 results) \<or>
         map_of d ''recall-at-p90'' = Some (PyFloat (Finite 0))))"
proof -
  have h: "snd (retrieval_eval_splits (demo_lib (demo_metrics PyNone)) demo_dataset
          [7] [11] [1, 2] [10, 12] None None None []) =
     Inr [(''uAP'', PyFloat (Finite (1 / 2))),
          (''accuracy-at-1'', PyFloat (Finite (3 / 4))),
          (''recall-at-p90'', PyFloat (Finite 0))]"
    by (simp add: demo_run demo_metrics_def py_or_def)
  note inst = retrieval_metrics_dict [THEN conjunct1, rule_format, OF disjI1, OF h]
  show ?thesis
    by (rule exI, rule conjI, rule h, rule conjI, rule refl, rule inst)
qed

text \<open>
  C2. Every call of \<^verbatim>\<open>retrieval_eval_splits\<close> goes one of four ways. It passes a keyword
  twice and raises TypeError with nothing called. Or it calls one matcher, which raises.
  Or the matcher returns predictions and \<^verbatim>\<open>evaluate\<close>, called with the stored ground
  truth \<^verbatim>\<open>self.gt\<close> and these predictions, raises. Or \<^verbatim>\<open>evaluate\<close> returns the metrics
  the result is read from. The matcher is \<^verbatim>\<open>knn_match_and_make_predictions\<close> with the
  given \<open>k\<close> (10 when not given) unless \<^verbatim>\<open>global_candidates\<close> is true, and then it is
  \<^verbatim>\<open>match_and_make_predictions\<close> with \<^verbatim>\<open>num_results\<close> equal to \<open>k\<close> times the number of
  query names; \<^verbatim>\<open>ngpu\<close> is -1 when \<^verbatim>\<open>use_gpu\<close> is true and 0 otherwise. No other call
  is made.
\<close>

theorem retrieval_eval_splits_delegates:
  "let qn = map (\<lambda>i. ''Q'' @ format_0d 5 i) qi;
       rn = map (\<lambda>i. ''R'' @ format_0d 6 i) ri;
       ngpu = (if ug = Some True then - 1 else 0);
       kk = (case k of None \<Rightarrow> 10 | Some n \<Rightarrow> n);
       call = (if gc = Some True
               then MatchAndMakePredictions qe qn re rn (kk * int (length qn)) ngpu kw
               else KnnMatchAndMakePredictions qe qn re rn kk ngpu kw);
       answer = (if gc = Some True
                 then match_and_make_predictions lib qe qn re rn (kk * int (length qn)) ngpu kw
                 else knn_match_and_make_predictions lib qe qn re rn kk ngpu kw);
       run = retrieval_eval_splits lib self qi qe ri re ug k gc kw
   in ((if gc = Some True then has_key kw ''num_results'' \<or> has_key kw ''ngpu''
        else has_key kw ''k'' \<or> has_key kw ''ngpu'') \<and>
       run = ([], Inl TypeError))
    \<or> (\<exists>msg. answer = Inl msg \<and> run = ([call], Inl (Raised msg)))
    \<or> (\<exists>preds msg. answer = Inr preds \<and> evaluate lib (gt self) preds = Inl msg \<and>
          run = ([call, Evaluate (gt self) preds], Inl (Raised msg)))
    \<or> (\<exists>preds results. answer = Inr preds \<and> evaluate lib (gt self) preds = Inr results \<and>
          run = ([call, Evaluate (gt self) preds],
                 Inr [(''uAP'', average_precision results),
                      (''accuracy-at-1'', recall_at_rank1 results),
                      (''recall-at-p90'',
                       py_or (recall_at_p90 results) (PyFloat (Finite 0)))]))"
proof (cases "if gc = Some True then has_key kw ''num_results'' \<or> has_key kw ''ngpu''
              else has_key kw ''k'' \<or> has_key kw ''ngpu''")
  case True
  show ?thesis
    unfolding Let_def retrieval_eval_splits_duplicate [OF True]
    by (rule disjI1) (rule conjI [OF True refl])
next
  case False
  show ?thesis
    unfolding Let_def retrieval_eval_splits_trace [OF False]
    by (simp split: sum.splits)
qed

theorem retrieval_eval_splits_delegates_witness:
  "retrieval_eval_splits (demo_lib (demo_metrics PyNone)) demo_dataset
       [7] [11] [1, 2] [10, 12] (Some True) (Some 3) (Some True) [] =
     ([MatchAndMakePredictions [11] [''Q00007''] [10, 12] [''R000001'', ''R000002''] 3 (- 1) [],
       Evaluate ''/data/gt_1k.csv'' ([''Q00007''], [''R000001'', ''R000002''], 3, - 1)],
      Inr [(''uAP'', PyFloat (Finite (1 / 2))),
           (''accuracy-at-1'', PyFloat (Finite (3 / 4))),
           (''recall-at-p90'', PyFloat (Finite 0))])"
  using retrieval_eval_splits_delegates [where gc = "Some True" and qe = "[11 :: nat]" and qi = "[7]" and re = "[10, 12]"
      and ri = "[1, 2]" and ug = "Some True" and k = "Some 3" and kw = "[]"
      and lib = "demo_lib (demo_metrics PyNone)" and self = demo_dataset]
  by (simp add: Let_def format_Q7 format_R1 format_R2 demo_dataset_def demo_metrics_def
      py_or_def)

section \<open>Retrieval evaluation: the selection of rows\<close>

lemma mask_select_nth:
  assumes "length xs = length ys"
  shows "map fst (filter snd (zip xs (map P ys))) =
         map (nth xs) (filter (\<lambda>i. P (ys ! i)) [0..<length ys])"
  using assms
proof (induction xs ys rule: list_induct2)
  case Nil
  then show ?case by simp
next
  case (Cons x xs y ys)
  have upt: "[0..<length (y # ys)] = 0 # map Suc [0..<length ys]"
    by (simp add: upt_conv_Cons map_Suc_upt del: upt_Suc)
  show ?case
    unfolding upt using Cons.IH
    by (simp add: filter_map o_def)
qed

lemma mask_index_nth:
  assumes "length xs = length ys"
  shows "mask_index xs (map P ys) =
         Inr (map (nth xs) (filter (\<lambda>i. P (ys ! i)) [0..<length ys]))"
  using assms by (simp add: mask_index_def mask_select_nth)


lemma first_call:
  "fst (retrieval_eval_splits lib self qi qe ri re ug k gc kw) = [] \<or>
   (\<exists>rest. fst (retrieval_eval_splits lib self qi qe ri re ug k gc kw) =
      (let qn = map (\<lambda>i. ''Q'' @ format_0d 5 i) qi;
           rn = map (\<lambda>i. ''R'' @ format_0d 6 i) ri;
           ngpu = (if ug = Some True then - 1 else 0);
           kk = (case k of None \<Rightarrow> 10 | Some n \<Rightarrow> n)
       in if gc = Some True
          then MatchAndMakePredictions qe qn re rn (kk * int (length qi)) ngpu kw
          else KnnMatchAndMakePredictions qe qn re rn kk ngpu kw) # rest)"
proof (cases "if gc = Some True then has_key kw ''num_results'' \<or> has_key kw ''ngpu''
              else has_key kw ''k'' \<or> has_key kw ''ngpu''")
  case True
  show ?thesis
    unfolding retrieval_eval_splits_duplicate [OF True] by simp
next
  case False
  show ?thesis
    unfolding Let_def retrieval_eval_splits_trace [OF False]
    by (simp split: sum.splits)
qed


text \<open>
  C3. For targets, splits and embedding rows of one length, \<^verbatim>\<open>retrieval_eval\<close> (unless a
  keyword argument is named like a positional parameter of \<^verbatim>\<open>retrieval_eval_splits\<close>,
  which raises TypeError) is \<^verbatim>\<open>retrieval_eval_splits\<close> on the rows whose split is 1
  (\<^verbatim>\<open>SPLIT_QUERY\<close>) as queries and the rows whose split is 0 (\<^verbatim>\<open>SPLIT_REF\<close>) as
  references, in their order; a row with another split value is in neither. The first
  call made, if any, is the matcher with the query names \<^verbatim>\<open>"Q%05d"\<close> and the reference
  names \<^verbatim>\<open>"R%06d"\<close> of the selected target ids.
\<close>

theorem retrieval_eval_selects_rows:
  assumes "length targets = length split" and "length embedding_array = length split"
  shows
    "let Q = filter (\<lambda>i. split ! i = 1) [0..<length split];
         R = filter (\<lambda>i. split ! i = 0) [0..<length split];
         qn = map (\<lambda>i. ''Q'' @ format_0d 5 (targets ! i)) Q;
         rn = map (\<lambda>i. ''R'' @ format_0d 6 (targets ! i)) R;
         qe = map (nth embedding_array) Q;
         re = map (nth embedding_array) R;
         run = retrieval_eval lib self embedding_array targets split ug k gc kw
     in (list_ex (has_key kw)
           [''self'', ''query_ids'', ''query_embeddings'', ''ref_ids'', ''ref_embeddings''] \<and>
         run = ([], Inl TypeError))
      \<or> (run = retrieval_eval_splits lib self (map (nth targets) Q) qe (map (nth targets) R) re
                  ug k gc kw \<and>
          (fst run = [] \<or>
           (\<exists>rest. fst run =
              (if gc = Some True
               then MatchAndMakePredictions qe qn re rn
                      ((case k of None \<Rightarrow> 10 | Some n \<Rightarrow> n) * int (length Q))
                      (if ug = Some True then - 1 else 0) kw
               else KnnMatchAndMakePredictions qe qn re rn
                      (case k of None \<Rightarrow> 10 | Some n \<Rightarrow> n)
                      (if ug = Some True then - 1 else 0) kw) # rest)))"
proof -
  let ?Q = "filter (\<lambda>i. split ! i = 1) [0..<length split]"
  let ?R = "filter (\<lambda>i. split ! i = 0) [0..<length split]"
  let ?clash = "list_ex (has_key kw)
     [''self'', ''query_ids'', ''query_embeddings'', ''ref_ids'', ''ref_embeddings'']"
  have run: "retrieval_eval lib self embedding_array targets split ug k gc kw =
      (if ?clash then ([], Inl TypeError)
       else retrieval_eval_splits lib self (map (nth targets) ?Q)
              (map (nth embedding_array) ?Q) (map (nth targets) ?R)
              (map (nth embedding_array) ?R) ug k gc kw)"
    unfolding retrieval_eval_def Let_def SPLIT_QUERY_def SPLIT_REF_def
    by (simp only: mask_index_nth [OF assms(1)] mask_index_nth [OF assms(2)] sum.case)
  show ?thesis
  proof (cases ?clash)
    case True
    then show ?thesis unfolding Let_def run by simp
  next
    case False
    have eq: "retrieval_eval lib self embedding_array targets split ug k gc kw =
        retrieval_eval_splits lib self (map (nth targets) ?Q)
          (map (nth embedding_array) ?Q) (map (nth targets) ?R)
          (map (nth embedding_array) ?R) ug k gc kw"
      using False by (simp only: run if_False)
    note fc = first_call [of lib self "map (nth targets) ?Q" "map (nth embedding_array) ?Q"
        "map (nth targets) ?R" "map (nth embedding_array) ?R" ug k gc kw,
        unfolded Let_def map_map o_def length_map]
    show ?thesis
      unfolding Let_def eq by (rule disjI2, rule conjI, rule refl, rule fc)
  qed
qed



theorem retrieval_eval_selects_rows_witness:
  "length [1, 7, 2, 5 :: int] = length [0, 1, 0, 2 :: int] \<and>
   length [10, 11, 12, 13 :: nat] = length [0, 1, 0, 2 :: int] \<and>
   retrieval_eval (demo_lib (demo_metrics PyNone)) demo_dataset
       [10, 11, 12, 13] [1, 7, 2, 5] [0, 1, 0, 2] None None None [] =
     ([KnnMatchAndMakePredictions [11] [''Q00007''] [10, 12] [''R000001'', ''R000002''] 10 0 [],
       Evaluate ''/data/gt_1k.csv'' ([''Q00007''], [''R000001'', ''R000002''], 10, 0)],
      Inr [(''uAP'', PyFloat (Finite (1 / 2))),
           (''accuracy-at-1'', PyFloat (Finite (3 / 4))),
           (''recall-at-p90'', PyFloat (Finite 0))])"
proof -
  have Q: "filter (\<lambda>i. [0, 1, 0, 2 :: int] ! i = 1) [0..<length [0, 1, 0, 2 :: int]] = [1]"
    and R: "filter (\<lambda>i. [0, 1, 0, 2 :: int] ! i = 0) [0..<length [0, 1, 0, 2 :: int]] = [0, 2]"
    by (simp_all add: upt_rec)
  from retrieval_eval_selects_rows [where targets = "[1, 7, 2, 5]" and split = "[0, 1, 0, 2]"
      and embedding_array = "[10, 11, 12, 13 :: nat]"
      and lib = "demo_lib (demo_metrics PyNone)" and self = demo_dataset
      and ug = None and k = None and gc = None and kw = "[]"]
  show ?thesis
    unfolding Let_def Q R
    by (simp add: demo_run demo_metrics_def py_or_def)
qed

section \<open>The default of \<^verbatim>\<open>recall-at-p90\<close>\<close>

text \<open>
  C9. In the dictionary \<^verbatim>\<open>retrieval_eval_splits\<close> returns, the value under
  \<^verbatim>\<open>recall-at-p90\<close> is the metrics' \<^verbatim>\<open>recall_at_p90\<close> when that is true in Python's
  sense and the float 0.0 otherwise, so 0.0 when it is None; the values under \<^verbatim>\<open>uAP\<close>
  and \<^verbatim>\<open>accuracy-at-1\<close> are the metrics' \<^verbatim>\<open>average_precision\<close> and \<^verbatim>\<open>recall_at_rank1\<close>
  whatever they are.
\<close>

theorem recall_at_p90_or_zero:
  assumes "snd (retrieval_eval_splits lib self qi qe ri re ug k gc kw) = Inr d"
  shows "\<exists>preds results.
           evaluate lib (gt self) preds = Inr results \<and>
           map_of d ''recall-at-p90'' =
             Some (if truthy (recall_at_p90 results) then recall_at_p90 results
                   else PyFloat (Finite 0)) \<and>
           (recall_at_p90 results = PyNone \<longrightarrow>
              map_of d ''recall-at-p90'' = Some (PyFloat (Finite 0))) \<and>
           map_of d ''uAP'' = Some (average_precision results) \<and>
           map_of d ''accuracy-at-1'' = Some (recall_at_rank1 results)"
proof -
  from assms obtain preds results where ev: "evaluate lib (gt self) preds = Inr results"
    and d: "d = [(''uAP'', average_precision results),
                 (''accuracy-at-1'', recall_at_rank1 results),
                 (''recall-at-p90'', py_or (recall_at_p90 results) (PyFloat (Finite 0)))]"
    using retrieval_eval_splits_returns by blast
  from d have "map_of d ''recall-at-p90'' =
             Some (if truthy (recall_at_p90 results) then recall_at_p90 results
                   else PyFloat (Finite 0))"
    and "recall_at_p90 results = PyNone \<longrightarrow>
              map_of d ''recall-at-p90'' = Some (PyFloat (Finite 0))"
    and "map_of d ''uAP'' = Some (average_precision results)"
    and "map_of d ''accuracy-at-1'' = Some (recall_at_rank1 results)"
    by (simp_all add: py_or_def)
  with ev show ?thesis by (intro exI [of _ preds] exI [of _ results] conjI)
qed


theorem recall_at_p90_or_zero_witness:
  "(\<exists>d. snd (retrieval_eval_splits
              (demo_lib \<lparr>average_precision = PyNone, recall_at_rank1 = PyInt 0,
                         recall_at_p90 = PyNone\<rparr>)
              demo_dataset [7] [11] [1, 2] [10, 12] None None None []) = Inr d \<and>
        d = [(''uAP'', PyNone), (''accuracy-at-1'', PyInt 0),
             (''recall-at-p90'', PyFloat (Finite 0))])
   \<and>
   (\<exists>d. snd (retrieval_eval_splits (demo_lib (demo_metrics (PyFloat (Finite (9 / 10)))))
              demo_dataset [7] [11] [1, 2] [10, 12] None None None []) = Inr d \<and>
        d = [(''uAP'', PyFloat (Finite (1 / 2))), (''accuracy-at-1'', PyFloat (Finite (3 / 4))),
             (''recall-at-p90'', PyFloat (Finite (9 / 10)))] \<and>
        (\<exists>preds results.
           evaluate (demo_lib (demo_metrics (PyFloat (Finite (9 / 10)))))
             (gt demo_dataset) preds = Inr results \<and>
           map_of d ''recall-at-p90'' =
             Some (if truthy (recall_at_p90 results) then recall_at_p90 results
                   else PyFloat (Finite 0)) \<and>
           (recall_at_p90 results = PyNone \<longrightarrow>
              map_of d ''recall-at-p90'' = Some (PyFloat (Finite 0))) \<and>
           map_of d ''uAP'' = Some (average_precision results) \<and>
           map_of d ''accuracy-at-1'' = Some (recall_at_rank1 results)))"
proof -
  have h1: "snd (retrieval_eval_splits
              (demo_lib \<lparr>average_precision = PyNone, recall_at_rank1 = PyInt 0,
                         recall_at_p90 = PyNone\<rparr>)
              demo_dataset [7] [11] [1, 2] [10, 12] None None None []) =
        Inr [(''uAP'', PyNone), (''accuracy-at-1'', PyInt 0),
             (''recall-at-p90'', PyFloat (Finite 0))]"
    by (simp add: demo_run py_or_def)
  have h2: "snd (retrieval_eval_splits (demo_lib (demo_metrics (PyFloat (Finite (9 / 10)))))
              demo_dataset [7] [11] [1, 2] [10, 12] None None None []) =
        Inr [(''uAP'', PyFloat (Finite (1 / 2))), (''accuracy-at-1'', PyFloat (Finite (3 / 4))),
             (''recall-at-p90'', PyFloat (Finite (9 / 10)))]"
    by (simp add: demo_run py_or_def demo_metrics_def)
  show ?thesis
    by (rule conjI, rule exI, rule conjI, rule h1, rule refl,
        rule exI, rule conjI, rule h2, rule conjI, rule refl,
        rule recall_at_p90_or_zero [OF h2])
qed

section \<open>The backbone factory\<close>

lemma ext_not_AssertionError [simp]: "ext r \<noteq> Inl (AssertionError msg)"
  by (cases r) (simp_all add: ext_def)

lemma Implementation_handled:
  "impl = CLASSY_VISION \<or> impl = TORCHVISION \<or> impl = TIMM"
  by (cases impl) simp_all

lemma build_no_AssertionError: "build z b dims \<noteq> Inl (AssertionError msg)"
proof -
  obtain r n impl where v: "Backbone_value b = (r, n, impl)"
    by (cases "Backbone_value b") auto
  from Implementation_handled [of impl] show ?thesis
    unfolding build_def Let_def v
    by (auto split: sum.splits model_ref.splits)
qed

lemma build_sscd_no_AssertionError: "build_sscd z b dims \<noteq> Inl (AssertionError msg)"
proof -
  obtain r n impl where v: "Backbone_sscd_value b = (r, n, impl)"
    by (cases "Backbone_sscd_value b") auto
  show ?thesis
    unfolding build_sscd_def Let_def v
    by (cases impl) (auto split: sum.splits model_ref.splits)
qed

lemma build_sscd_outcome:
  "(\<exists>m. build_sscd z b dims = Inr m) \<or> (\<exists>msg. build_sscd z b dims = Inl (Raised msg))"
  by (cases b) (auto simp add: build_sscd_def ext_def split: sum.splits)

lemma build_outcome:
  assumes "b \<noteq> TIMM_EFFICIENTNET" and "b \<noteq> TIMM_MOBILENETV3"
  shows "(\<exists>m. build z b dims = Inr m) \<or> (\<exists>msg. build z b dims = Inl (Raised msg))"
  using assms by (cases b) (auto simp add: build_def ext_def split: sum.splits)

lemma build_TIMM_MOBILENETV3_raises:
  "build z TIMM_MOBILENETV3 dims = Inl TypeError"
  by (simp add: build_def)


text \<open>On the test zoo every branch is taken once; the mislabelled member is not.\<close>

lemma build_examples:
  "build demo_zoo CV_RESNET18 512 = Inr ''classy''"
  "build demo_zoo TV_RESNET18 512 = Inr ''torchvision''"
  "build demo_zoo TIMM_RESNET18 512 = Inr ''timm''"
  "build demo_zoo TIMM_MOBILENETV3 512 = Inl TypeError"
  "build_sscd demo_zoo SSCD_TV_EFFICIENTNET_B0 512 = Inr ''torchvision''"
  by (simp_all add: build_def build_sscd_def demo_zoo_def ext_def)

text \<open>
  C5. The assertion that ends \<^verbatim>\<open>build\<close> is never reached, in either module
  (\<open>build_no_AssertionError\<close>, \<open>build_sscd_no_AssertionError\<close>), and every member
  of \<^verbatim>\<open>sscd/models/model.py\<close> gets its model from the collaborator of its branch
  (\<open>build_sscd_outcome\<close>). In \<^verbatim>\<open>src/model.py\<close> the member \<^verbatim>\<open>TIMM_EFFICIENTNET\<close> carries a
  model name together with \<^verbatim>\<open>Implementation.TORCHVISION\<close>: \<^verbatim>\<open>build\<close> takes the torchvision
  branch, calls the string and raises TypeError for every \<open>dims\<close>, whatever the model
  zoos do.
\<close>

theorem build_TIMM_EFFICIENTNET_raises:
  "build z TIMM_EFFICIENTNET dims = Inl TypeError"
  by (simp add: build_def)


section \<open>The argument group\<close>

lemma Backbone_members_all: "set Backbone_members = UNIV"
proof -
  have "b \<in> set Backbone_members" for b
    by (cases b) (simp_all add: Backbone_members_def)
  then show ?thesis by blast
qed

lemma Backbone_sscd_members_all: "set Backbone_sscd_members = UNIV"
proof -
  have "b \<in> set Backbone_sscd_members" for b
    by (cases b) (simp_all add: Backbone_sscd_members_def)
  then show ?thesis by blast
qed

lemma Backbone_names:
  "map Backbone_name Backbone_members =
     [''CV_RESNET18'', ''CV_RESNET50'', ''CV_RESNEXT101'',
      ''TV_EFFICIENTNET_B0'', ''TV_MOBILENETV3'', ''TV_REGNET_X_800MF'', ''TV_REGNET_Y_800MF'',
      ''TV_RESNET18'', ''TV_RESNET50'', ''TV_RESNEXT101'',
      ''TIMM_RESNET18'', ''TIMM_EFFICIENTNET'', ''TIMM_MOBILENETV3'']"
  by (simp add: Backbone_members_def)

lemma Backbone_sscd_names:
  "map Backbone_sscd_name Backbone_sscd_members =
     [''CV_RESNET18'', ''CV_RESNET50'', ''CV_RESNEXT101'',
      ''TV_EFFICIENTNET_B0'', ''TV_MOBILENETV3'', ''TV_REGNET_X_800MF'', ''TV_REGNET_Y_800MF'',
      ''TV_RESNET18'', ''TV_RESNET50'', ''TV_RESNEXT101'']"
  by (simp add: Backbone_sscd_members_def)

lemma Backbone_values_distinct: "distinct (map Backbone_value Backbone_members)"
  by (simp add: Backbone_members_def)

lemma add_arguments_with_fresh:
  assumes "''--backbone'' \<notin> set (map option_string (parser_actions p))"
    and "''--dims'' \<notin> set (map option_string (parser_actions p))"
    and "''--pool_param'' \<notin> set (map option_string (parser_actions p))"
  shows "add_arguments_with names p =
    (p\<lparr>parser_actions := parser_actions p @
          [\<lparr>option_string = ''--backbone'', arg_default = PyStr ''TV_RESNET18'',
            arg_choices = Some names, arg_type = None\<rparr>,
           \<lparr>option_string = ''--dims'', arg_default = PyInt 512,
            arg_choices = None, arg_type = Some conv_int\<rparr>,
           \<lparr>option_string = ''--pool_param'', arg_default = PyInt 3,
            arg_choices = None, arg_type = Some conv_float\<rparr>],
        action_groups := action_groups p @
          [\<lparr>title = ''Model'',
            group_actions =
              [\<lparr>option_string = ''--backbone'', arg_default = PyStr ''TV_RESNET18'',
                arg_choices = Some names, arg_type = None\<rparr>,
               \<lparr>option_string = ''--dims'', arg_default = PyInt 512,
                arg_choices = None, arg_type = Some conv_int\<rparr>,
               \<lparr>option_string = ''--pool_param'', arg_default = PyInt 3,
                arg_choices = None, arg_type = Some conv_float\<rparr>]\<rparr>]\<rparr>,
     None)"
  using assms
  by (simp add: add_arguments_with_def add_argument_group_def add_argument_def
      backbone_argument_def dims_argument_def pool_param_argument_def)

text \<open>
  C7. On a parser that has none of the three option strings yet, \<^verbatim>\<open>Model.add_arguments\<close>
  adds one argument group titled \<^verbatim>\<open>Model\<close> and registers in it, in this order,
  \<^verbatim>\<open>--backbone\<close> (default the string \<^verbatim>\<open>TV_RESNET18\<close>, choices the names of the members of
  \<^verbatim>\<open>Backbone\<close>, no conversion), \<^verbatim>\<open>--dims\<close> (default 512, conversion \<^verbatim>\<open>int\<close>) and
  \<^verbatim>\<open>--pool_param\<close> (default 3, conversion \<^verbatim>\<open>float\<close>); nothing else of the parser changes
  and no exception is raised. This holds for the method of either module, each with the
  names of its own enumeration, and the choices are exactly the names of all members.
\<close>

theorem add_arguments_registers:
  assumes "''--backbone'' \<notin> set (map option_string (parser_actions p))"
    and "''--dims'' \<notin> set (map option_string (parser_actions p))"
    and "''--pool_param'' \<notin> set (map option_string (parser_actions p))"
  shows
    "let actions = (\<lambda>names.
           [\<lparr>option_string = ''--backbone'', arg_default = PyStr ''TV_RESNET18'',
             arg_choices = Some names, arg_type = None\<rparr>,
            \<lparr>option_string = ''--dims'', arg_default = PyInt 512,
             arg_choices = None, arg_type = Some conv_int\<rparr>,
            \<lparr>option_string = ''--pool_param'', arg_default = PyInt 3,
             arg_choices = None, arg_type = Some conv_float\<rparr>]);
         registered = (\<lambda>names.
           (p\<lparr>parser_actions := parser_actions p @ actions names,
              action_groups := action_groups p @
                [\<lparr>title = ''Model'', group_actions = actions names\<rparr>]\<rparr>,
            None))
     in add_arguments p = registered (map Backbone_name Backbone_members) \<and>
        add_arguments_sscd p = registered (map Backbone_sscd_name Backbone_sscd_members) \<and>
        set (map Backbone_name Backbone_members) = range Backbone_name \<and>
        set (map Backbone_sscd_name Backbone_sscd_members) = range Backbone_sscd_name"
proof -
  have "set (map Backbone_name Backbone_members) = range Backbone_name"
    and "set (map Backbone_sscd_name Backbone_sscd_members) = range Backbone_sscd_name"
    by (simp_all only: set_map Backbone_members_all Backbone_sscd_members_all)
  then show ?thesis
    unfolding Let_def add_arguments_def add_arguments_sscd_def
      add_arguments_with_fresh [OF assms]
    by simp
qed

theorem add_arguments_registers_witness:
  "''--backbone'' \<notin> set (map option_string (parser_actions demo_parser)) \<and>
   ''--dims'' \<notin> set (map option_string (parser_actions demo_parser)) \<and>
   ''--pool_param'' \<notin> set (map option_string (parser_actions demo_parser)) \<and>
   add_arguments demo_parser =
     (\<lparr>parser_actions =
         [\<lparr>option_string = ''--help'', arg_default = PyNone,
           arg_choices = None, arg_type = None\<rparr>,
          \<lparr>option_string = ''--backbone'', arg_default = PyStr ''TV_RESNET18'',
           arg_choices = Some
             [''CV_RESNET18'', ''CV_RESNET50'', ''CV_RESNEXT101'',
              ''TV_EFFICIENTNET_B0'', ''TV_MOBILENETV3'', ''TV_REGNET_X_800MF'',
              ''TV_REGNET_Y_800MF'', ''TV_RESNET18'', ''TV_RESNET50'', ''TV_RESNEXT101'',
              ''TIMM_RESNET18'', ''TIMM_EFFICIENTNET'', ''TIMM_MOBILENETV3''],
           arg_type = None\<rparr>,
          \<lparr>option_string = ''--dims'', arg_default = PyInt 512,
           arg_choices = None, arg_type = Some conv_int\<rparr>,
          \<lparr>option_string = ''--pool_param'', arg_default = PyInt 3,
           arg_choices = None, arg_type = Some conv_float\<rparr>],
       action_groups =
         [\<lparr>title = ''options'',
           group_actions =
             [\<lparr>option_string = ''--help'', arg_default = PyNone,
               arg_choices = None, arg_type = None\<rparr>]\<rparr>,
          \<lparr>title = ''Model'',
           group_actions =
             [\<lparr>option_string = ''--backbone'', arg_default = PyStr ''TV_RESNET18'',
               arg_choices = Some
                 [''CV_RESNET18'', ''CV_RESNET50'', ''CV_RESNEXT101'',
                  ''TV_EFFICIENTNET_B0'', ''TV_MOBILENETV3'', ''TV_REGNET_X_800MF'',
                  ''TV_REGNET_Y_800MF'', ''TV_RESNET18'', ''TV_RESNET50'', ''TV_RESNEXT101'',
                  ''TIMM_RESNET18'', ''TIMM_EFFICIENTNET'', ''TIMM_MOBILENETV3''],
               arg_type = None\<rparr>,
              \<lparr>option_string = ''--dims'', arg_default = PyInt 512,
               arg_choices = None, arg_type = Some conv_int\<rparr>,
              \<lparr>option_string = ''--pool_param'', arg_default = PyInt 3,
               arg_choices = None, arg_type = Some conv_float\<rparr>]\<rparr>]\<rparr>,
      None)"
proof -
  have fresh: "''--backbone'' \<notin> set (map option_string (parser_actions demo_parser))"
    "''--dims'' \<notin> set (map option_string (parser_actions demo_parser))"
    "''--pool_param'' \<notin> set (map option_string (parser_actions demo_parser))"
    by (simp_all add: demo_parser_def)
  from add_arguments_registers [OF fresh] fresh show ?thesis
    by (simp add: Let_def Backbone_names demo_parser_def)
qed


section \<open>The evaluation dataset\<close>

text \<open>
  C8. \<^verbatim>\<open>DISCEvalDataset.__init__\<close> does not depend on its parameters \<^verbatim>\<open>query_path\<close>,
  \<^verbatim>\<open>ref_path\<close>, \<^verbatim>\<open>train_path\<close> and \<^verbatim>\<open>gt_path\<close>: whatever is passed for them, the reads
  made and the dataset built (files, metadata, ground truth) or the exception raised are
  those of the call that leaves them at None.
\<close>

theorem DISCEvalDataset_init_ignores_part_paths:
  "DISCEvalDataset_init env path transform0 include_train query_path ref_path train_path gt_path
     = DISCEvalDataset_init env path transform0 include_train None None None None"
  by (simp add: DISCEvalDataset_init_def)

lemma those_map_Some:
  "those (map f xs) = Some ys \<Longrightarrow> list_all2 (\<lambda>x y. f x = Some y) xs ys"
proof (induction xs arbitrary: ys)
  case Nil
  then show ?case by simp
next
  case (Cons x xs)
  then show ?case
    by (cases "f x"; cases "those (map f xs)") auto
qed

lemma read_files_fst: "fst (read_files env p s) = [GetImagePaths p]"
  unfolding read_files_def Let_def
  by (simp add: and_then_call split: sum.splits option.splits)

lemma read_files_Inr:
  assumes "snd (read_files env p s) = Inr (fs, ms)"
  shows "get_image_paths env p = Inr fs \<and>
         list_all2 (\<lambda>file m.
            metadata_entry env s (fst (os_path_splitext (os_path_basename file))) = Some m)
           fs ms"
proof -
  from assms obtain image_paths where g: "get_image_paths env p = Inr image_paths"
    unfolding read_files_def by (cases "get_image_paths env p") (simp_all add: and_then_call)
  from assms have "those (map (metadata_entry env s)
        (map (\<lambda>file. fst (os_path_splitext (os_path_basename file))) image_paths)) = Some ms
      \<and> fs = image_paths"
    unfolding read_files_def Let_def g
    by (simp add: and_then_call split: option.splits)
  then show ?thesis
    using g those_map_Some [of "\<lambda>file. metadata_entry env s
        (fst (os_path_splitext (os_path_basename file)))" image_paths ms]
    by (simp add: o_def)
qed

lemma os_path_join_relative:
  assumes "b \<noteq> []" and "hd b \<noteq> CHR ''/''"
  shows "os_path_join a b = (if a = [] \<or> last a = CHR ''/'' then a else a @ ''/'') @ b"
  using assms by (simp add: os_path_join_def)



lemma DISCEvalDataset_init_unfold:
  assumes "dir = (if path = [] \<or> last path = CHR ''/'' then path else path @ ''/'')"
  shows "DISCEvalDataset_init env path transform0 include_train qp rp tp gp =
    and_then (read_files env (dir @ ''references'') SPLIT_REF) (\<lambda>(ref_files, ref_metadata).
    and_then (read_files env (dir @ ''final_queries'') SPLIT_QUERY)
      (\<lambda>(query_files, query_metadata).
    and_then
      (if include_train
       then and_then (read_files env (dir @ ''train'') SPLIT_TRAIN)
              (\<lambda>(train_files, train_metadata).
                 ([], Inr (ref_files @ query_files @ train_files,
                           ref_metadata @ query_metadata @ train_metadata)))
       else ([], Inr (ref_files @ query_files, ref_metadata @ query_metadata)))
      (\<lambda>(all_files, all_metadata).
    and_then ([ReadGroundTruth (dir @ ''gt_1k.csv'')],
              ext (read_ground_truth env (dir @ ''gt_1k.csv''))) (\<lambda>ground_truth.
      ([], Inr \<lparr>files = all_files, metadata = all_metadata, gt = ground_truth,
                transform = transform0\<rparr>)))))"
  using assms by (simp add: DISCEvalDataset_init_def Let_def os_path_join_relative)

lemma DISCEvalDataset_init_eq:
  assumes "dir = (if path = [] \<or> last path = CHR ''/'' then path else path @ ''/'')"
  shows "DISCEvalDataset_init env path transform0 include_train qp rp tp gp =
    (case snd (read_files env (dir @ ''references'') SPLIT_REF) of
       Inl e \<Rightarrow> ([GetImagePaths (dir @ ''references'')], Inl e)
     | Inr (ref_files, ref_metadata) \<Rightarrow>
     (case snd (read_files env (dir @ ''final_queries'') SPLIT_QUERY) of
       Inl e \<Rightarrow>
         ([GetImagePaths (dir @ ''references''), GetImagePaths (dir @ ''final_queries'')],
          Inl e)
     | Inr (query_files, query_metadata) \<Rightarrow>
       if include_train then
         (case snd (read_files env (dir @ ''train'') SPLIT_TRAIN) of
            Inl e \<Rightarrow>
              ([GetImagePaths (dir @ ''references''), GetImagePaths (dir @ ''final_queries''),
                GetImagePaths (dir @ ''train'')], Inl e)
          | Inr (train_files, train_metadata) \<Rightarrow>
            (case read_ground_truth env (dir @ ''gt_1k.csv'') of
               Inl msg \<Rightarrow>
                 ([GetImagePaths (dir @ ''references''),
                   GetImagePaths (dir @ ''final_queries''),
                   GetImagePaths (dir @ ''train''),
                   ReadGroundTruth (dir @ ''gt_1k.csv'')], Inl (Raised msg))
             | Inr ground_truth \<Rightarrow>
                 ([GetImagePaths (dir @ ''references''),
                   GetImagePaths (dir @ ''final_queries''),
                   GetImagePaths (dir @ ''train''),
                   ReadGroundTruth (dir @ ''gt_1k.csv'')],
                  Inr \<lparr>files = ref_files @ query_files @ train_files,
                       metadata = ref_metadata @ query_metadata @ train_metadata,
                       gt = ground_truth, transform = transform0\<rparr>)))
       else
         (case read_ground_truth env (dir @ ''gt_1k.csv'') of
            Inl msg \<Rightarrow>
              ([GetImagePaths (dir @ ''references''), GetImagePaths (dir @ ''final_queries''),
                ReadGroundTruth (dir @ ''gt_1k.csv'')], Inl (Raised msg))
          | Inr ground_truth \<Rightarrow>
              ([GetImagePaths (dir @ ''references''), GetImagePaths (dir @ ''final_queries''),
                ReadGroundTruth (dir @ ''gt_1k.csv'')],
               Inr \<lparr>files = ref_files @ query_files,
                    metadata = ref_metadata @ query_metadata,
                    gt = ground_truth, transform = transform0\<rparr>))))"
proof -
  note u = DISCEvalDataset_init_unfold [OF assms]
  let ?r1 = "snd (read_files env (dir @ ''references'') SPLIT_REF)"
  let ?r2 = "snd (read_files env (dir @ ''final_queries'') SPLIT_QUERY)"
  let ?r3 = "snd (read_files env (dir @ ''train'') SPLIT_TRAIN)"
  let ?r4 = "read_ground_truth env (dir @ ''gt_1k.csv'')"
  show ?thesis
  proof (cases ?r1)
    case Inl
    then show ?thesis
      unfolding u by (simp add: and_then_def read_files_fst)
  next
    case r1: (Inr x1)
    show ?thesis
    proof (cases ?r2)
      case Inl
      with r1 show ?thesis
        unfolding u by (simp add: and_then_def read_files_fst split: prod.splits)
    next
      case r2: (Inr x2)
      show ?thesis
      proof (cases include_train)
        case False
        with r1 r2 show ?thesis
          unfolding u
          by (cases ?r4) (simp_all add: and_then_def read_files_fst ext_def split: prod.splits)
      next
        case True
        show ?thesis
        proof (cases ?r3)
          case Inl
          with r1 r2 True show ?thesis
            unfolding u by (simp add: and_then_def read_files_fst split: prod.splits)
        next
          case r3: (Inr x3)
          with r1 r2 True show ?thesis
            unfolding u
            by (cases ?r4) (simp_all add: and_then_def read_files_fst ext_def split: prod.splits)
        qed
      qed
    qed
  qed
qed

text \<open>
  C6. Let \<open>dir\<close> be \<open>path\<close> followed by a slash (unless \<open>path\<close> is empty or ends with
  one already). Constructing a \<^verbatim>\<open>DISCEvalDataset\<close> reads, in this order, the images of
  \<open>dir\<close>\<^verbatim>\<open>references\<close>, the images of \<open>dir\<close>\<^verbatim>\<open>final_queries\<close>, the images of
  \<open>dir\<close>\<^verbatim>\<open>train\<close> when \<^verbatim>\<open>include_train\<close> is true, and the ground truth of
  \<open>dir\<close>\<^verbatim>\<open>gt_1k.csv\<close>. It either completes all these reads and returns the dataset,
  whose ground truth is what was read from the CSV file, or it raises at one of them and
  has made the reads up to that one. The training directory is read if and only if
  \<^verbatim>\<open>include_train\<close> is true, and nothing else is read.
\<close>

theorem DISCEvalDataset_layout:
  "let dir = (if path = [] \<or> last path = CHR ''/'' then path else path @ ''/'');
       reads = [GetImagePaths (dir @ ''references''), GetImagePaths (dir @ ''final_queries'')] @
               (if include_train then [GetImagePaths (dir @ ''train'')] else []) @
               [ReadGroundTruth (dir @ ''gt_1k.csv'')];
       run = DISCEvalDataset_init env path transform0 include_train
               query_path ref_path train_path gt_path
   in ((\<exists>e n. n < length reads \<and> run = (take (Suc n) reads, Inl e)) \<or>
       (\<exists>self g. run = (reads, Inr self) \<and>
                 read_ground_truth env (dir @ ''gt_1k.csv'') = Inr g \<and> gt self = g)) \<and>
      (GetImagePaths (dir @ ''train'') \<in> set reads \<longleftrightarrow> include_train)"
proof -
  define dir where "dir = (if path = [] \<or> last path = CHR ''/'' then path else path @ ''/'')"
  define reads where
    "reads = [GetImagePaths (dir @ ''references''), GetImagePaths (dir @ ''final_queries'')] @
               (if include_train then [GetImagePaths (dir @ ''train'')] else []) @
               [ReadGroundTruth (dir @ ''gt_1k.csv'')]"
  define run where "run = DISCEvalDataset_init env path transform0 include_train
               query_path ref_path train_path gt_path"
  note eq = DISCEvalDataset_init_eq [OF dir_def, of env transform0 include_train
      query_path ref_path train_path gt_path, folded run_def]
  have outcome: "(\<exists>e n. n < length reads \<and> run = (take (Suc n) reads, Inl e)) \<or>
       (\<exists>self g. run = (reads, Inr self) \<and>
                 read_ground_truth env (dir @ ''gt_1k.csv'') = Inr g \<and> gt self = g)"
  proof (cases "snd run")
    case (Inl e)
    have "\<exists>n. n < length reads \<and> fst run = take (Suc n) reads"
    proof (cases "snd (read_files env (dir @ ''references'') SPLIT_REF)")
      case Inl
      then have "0 < length reads \<and> fst run = take (Suc 0) reads"
        unfolding eq reads_def by simp
      then show ?thesis by blast
    next
      case r1: (Inr x1)
      show ?thesis
      proof (cases "snd (read_files env (dir @ ''final_queries'') SPLIT_QUERY)")
        case Inl
        with r1 have "1 < length reads \<and> fst run = take (Suc 1) reads"
          unfolding eq reads_def by (simp split: prod.splits)
        then show ?thesis by blast
      next
        case r2: (Inr x2)
        show ?thesis
        proof (cases include_train)
          case False
          with r1 r2 Inl have "2 < length reads \<and> fst run = take (Suc 2) reads"
            unfolding eq reads_def by (simp split: prod.splits sum.splits)
          then show ?thesis by blast
        next
          case True
          show ?thesis
          proof (cases "snd (read_files env (dir @ ''train'') SPLIT_TRAIN)")
            case Inl
            with r1 r2 True have "2 < length reads \<and> fst run = take (Suc 2) reads"
              unfolding eq reads_def by (simp split: prod.splits)
            then show ?thesis by blast
          next
            case r3: (Inr x3)
            with r1 r2 True Inl have "3 < length reads \<and> fst run = take (Suc 3) reads"
              unfolding eq reads_def by (simp split: prod.splits sum.splits)
            then show ?thesis by blast
          qed
        qed
      qed
    qed
    with Inl show ?thesis by (metis prod.collapse)
  next
    case (Inr self)
    then have "fst run = reads \<and>
        (\<exists>g. read_ground_truth env (dir @ ''gt_1k.csv'') = Inr g \<and> gt self = g)"
      unfolding eq reads_def by (auto split: sum.splits prod.splits if_splits)
    with Inr show ?thesis by (metis prod.collapse)
  qed
  have "GetImagePaths (dir @ ''train'') \<in> set reads \<longleftrightarrow> include_train"
    unfolding reads_def by simp
  with outcome show ?thesis
    unfolding Let_def dir_def [symmetric] reads_def [symmetric] run_def [symmetric] by simp
qed

lemma demo_names:
  "fst (os_path_splitext (os_path_basename ''/data/references/R000001.jpg'')) = ''R000001''"
  "fst (os_path_splitext (os_path_basename ''/data/references/R000002.jpg'')) = ''R000002''"
  "fst (os_path_splitext (os_path_basename ''/data/final_queries/Q00007.jpg'')) = ''Q00007''"
  "fst (os_path_splitext (os_path_basename ''/data/train/T000003.jpg'')) = ''T000003''"
  by (simp_all add: os_path_splitext_def os_path_basename_def Let_def)

lemma demo_ints:
  "demo_int ''000001'' = Some 1" "demo_int ''000002'' = Some 2"
  "demo_int ''00007'' = Some 7" "demo_int ''000003'' = Some 3"
  by (simp_all add: demo_int_def digit_value_def)

lemma demo_io_simps [simp]:
  "get_image_paths demo_io ''/data/references'' =
     Inr [''/data/references/R000001.jpg'', ''/data/references/R000002.jpg'']"
  "get_image_paths demo_io ''/data/final_queries'' = Inr [''/data/final_queries/Q00007.jpg'']"
  "get_image_paths demo_io ''/data/train'' = Inr [''/data/train/T000003.jpg'']"
  "read_ground_truth demo_io p = Inr p"
  "default_loader demo_io p = Inr p"
  "py_int demo_io = demo_int"
  by (simp_all add: demo_io_def)

lemma demo_read_files:
  "read_files demo_io ''/data/references'' s =
     ([GetImagePaths ''/data/references''],
      Inr ([''/data/references/R000001.jpg'', ''/data/references/R000002.jpg''],
           [[(''name'', PyStr ''R000001''), (''split'', PyInt s),
             (''image_num'', PyInt 1), (''target'', PyInt (- 1))],
            [(''name'', PyStr ''R000002''), (''split'', PyInt s),
             (''image_num'', PyInt 2), (''target'', PyInt (- 1))]]))"
  "read_files demo_io ''/data/final_queries'' s =
     ([GetImagePaths ''/data/final_queries''],
      Inr ([''/data/final_queries/Q00007.jpg''],
           [[(''name'', PyStr ''Q00007''), (''split'', PyInt s),
             (''image_num'', PyInt 7), (''target'', PyInt (- 1))]]))"
  "read_files demo_io ''/data/train'' s =
     ([GetImagePaths ''/data/train''],
      Inr ([''/data/train/T000003.jpg''],
           [[(''name'', PyStr ''T000003''), (''split'', PyInt s),
             (''image_num'', PyInt 3), (''target'', PyInt (- 1))]]))"
  by (simp_all add: read_files_def and_then_call Let_def demo_names metadata_entry_def
      demo_ints)

lemma demo_init:
  "DISCEvalDataset_init demo_io ''/data'' None True qp rp tp gp =
     ([GetImagePaths ''/data/references'', GetImagePaths ''/data/final_queries'',
       GetImagePaths ''/data/train'', ReadGroundTruth ''/data/gt_1k.csv''],
      Inr demo_dataset)"
  by (simp add: DISCEvalDataset_init_eq [of "''/data/''" "''/data''"] demo_read_files
      SPLIT_REF_def SPLIT_QUERY_def SPLIT_TRAIN_def demo_dataset_def)

theorem DISCEvalDataset_layout_witness:
  "DISCEvalDataset_init demo_io ''/data'' None True None None None None =
     ([GetImagePaths ''/data/references'', GetImagePaths ''/data/final_queries'',
       GetImagePaths ''/data/train'', ReadGroundTruth ''/data/gt_1k.csv''],
      Inr demo_dataset) \<and>
   DISCEvalDataset_init demo_io ''/nowhere'' None False None None None None =
     ([GetImagePaths ''/nowhere/references''], Inl (Raised ''no such directory''))"
proof -
  have "read_files demo_io ''/nowhere/references'' SPLIT_REF =
      ([GetImagePaths ''/nowhere/references''], Inl (Raised ''no such directory''))"
    by (simp add: read_files_def and_then_call demo_io_def)
  then have "DISCEvalDataset_init demo_io ''/nowhere'' None False None None None None =
     ([GetImagePaths ''/nowhere/references''], Inl (Raised ''no such directory''))"
    by (simp add: DISCEvalDataset_init_eq [of "''/nowhere/''" "''/nowhere''"])
  with DISCEvalDataset_layout [where path = "''/data''" and include_train = True
      and env = demo_io and ?transform0.0 = None and query_path = None and ref_path = None
      and train_path = None and gt_path = None]
  show ?thesis by (simp add: demo_init)
qed


lemma metadata_entry_Some:
  assumes "metadata_entry env s name0 = Some m"
  shows "\<exists>n. py_int env (drop 1 name0) = Some n \<and>
             m = [(''name'', PyStr name0), (''split'', PyInt s),
                  (''image_num'', PyInt n), (''target'', PyInt (- 1))]"
  using assms by (auto simp add: metadata_entry_def split: option.splits)

lemma entries_split:
  assumes "list_all2 (\<lambda>file m. metadata_entry env s (nm file) = Some m) fs ms"
  shows "map (\<lambda>m. map_of m ''split'') ms = replicate (length fs) (Some (PyInt s))"
  using assms
proof (induction rule: list_all2_induct)
  case Nil
  then show ?case by simp
next
  case (Cons f fs m ms)
  from metadata_entry_Some [OF Cons.hyps(1)] have "map_of m ''split'' = Some (PyInt s)"
    by auto
  with Cons.IH show ?case by simp
qed

lemma py_getitem_Inr_mem: "py_getitem xs i = Inr x \<Longrightarrow> x \<in> set xs"
  by (auto simp add: py_getitem_def split: if_splits)

lemma py_getitem_in_range:
  assumes "- int (length xs) \<le> i" and "i < int (length xs)"
  shows "\<exists>x. py_getitem xs i = Inr x"
  using assms by (simp add: py_getitem_def)

lemma py_getitem_out_of_range:
  assumes "i < - int (length xs) \<or> int (length xs) \<le> i"
  shows "py_getitem xs i = Inl IndexError"
  using assms by (auto simp add: py_getitem_def)

lemma DISCEvalDataset_getitem_Inr:
  assumes "DISCEvalDataset_getitem env self idx = Inr sample"
  shows "\<exists>img entry. py_getitem (metadata self) idx = Inr entry \<and>
           sample = dict_update [(''input'', PyObj img), (''instance_id'', PyInt idx)] entry"
  using assms unfolding DISCEvalDataset_getitem_def Let_def
  by (auto simp add: bind_exn_Inr_iff)

lemma DISCEvalDataset_getitem_outcome:
  assumes "length (metadata self) = length (files self)"
    and "- int (length (files self)) \<le> idx" and "idx < int (length (files self))"
  shows "(\<exists>sample. DISCEvalDataset_getitem env self idx = Inr sample) \<or>
         (\<exists>msg. DISCEvalDataset_getitem env self idx = Inl (Raised msg))"
proof -
  from py_getitem_in_range [OF assms(2,3)]
  obtain filename where f: "py_getitem (files self) idx = Inr filename" by blast
  from py_getitem_in_range [of "metadata self" idx] assms
  obtain entry where m: "py_getitem (metadata self) idx = Inr entry" by auto
  show ?thesis
    unfolding DISCEvalDataset_getitem_def Let_def f m
    by (cases "default_loader env filename"; cases "transform self")
       (auto simp add: bind_exn_def ext_def split: sum.splits)
qed

lemma DISCEvalDataset_init_Inr:
  assumes "snd (DISCEvalDataset_init env path transform0 include_train qp rp tp gp) = Inr self"
    and "dir = (if path = [] \<or> last path = CHR ''/'' then path else path @ ''/'')"
  shows "\<exists>refs rm queries qm train tm.
      snd (read_files env (dir @ ''references'') SPLIT_REF) = Inr (refs, rm) \<and>
      snd (read_files env (dir @ ''final_queries'') SPLIT_QUERY) = Inr (queries, qm) \<and>
      (if include_train
       then snd (read_files env (dir @ ''train'') SPLIT_TRAIN) = Inr (train, tm)
       else train = [] \<and> tm = []) \<and>
      files self = refs @ queries @ train \<and>
      metadata self = rm @ qm @ tm"
  using assms(1) unfolding DISCEvalDataset_init_eq [OF assms(2)]
  by (auto split: sum.splits prod.splits if_splits)

text \<open>
  C10. When \<^verbatim>\<open>DISCEvalDataset.__init__\<close> completes, \<^verbatim>\<open>self.files\<close> is the reference files,
  then the query files, then the training files (none unless \<^verbatim>\<open>include_train\<close>);
  \<^verbatim>\<open>self.metadata\<close> has the same length and its \<^verbatim>\<open>split\<close> entries are 0 for the first
  block, 1 for the second and 2 for the third. At every index the metadata's \<^verbatim>\<open>name\<close> is
  the basename of the file without its extension, its \<^verbatim>\<open>image_num\<close> is \<^verbatim>\<open>int\<close> of that
  name without its first character, and its \<^verbatim>\<open>target\<close> is -1. Whenever
  \<^verbatim>\<open>__getitem__(idx)\<close> returns a sample, its \<^verbatim>\<open>instance_id\<close> is \<open>idx\<close> and its \<^verbatim>\<open>split\<close> and
  \<^verbatim>\<open>name\<close> are those of \<^verbatim>\<open>self.metadata[idx]\<close>; and for an index in range (negative
  ones counting from the end) it returns a sample unless the loader or the transform
  raises.
\<close>

theorem DISCEvalDataset_init_invariant:
  assumes "snd (DISCEvalDataset_init env path transform0 include_train
                  query_path ref_path train_path gt_path) = Inr self"
  shows "\<exists>refs queries train.
      files self = refs @ queries @ train \<and>
      (include_train \<or> train = []) \<and>
      length (metadata self) = length (files self) \<and>
      map (\<lambda>m. map_of m ''split'') (metadata self) =
        replicate (length refs) (Some (PyInt SPLIT_REF)) @
        replicate (length queries) (Some (PyInt SPLIT_QUERY)) @
        replicate (length train) (Some (PyInt SPLIT_TRAIN)) \<and>
      (\<forall>i < length (files self).
         \<exists>n. py_int env
                (drop 1 (fst (os_path_splitext (os_path_basename (files self ! i))))) = Some n \<and>
             map_of (metadata self ! i) ''name'' =
               Some (PyStr (fst (os_path_splitext (os_path_basename (files self ! i))))) \<and>
             map_of (metadata self ! i) ''image_num'' = Some (PyInt n) \<and>
             map_of (metadata self ! i) ''target'' = Some (PyInt (- 1))) \<and>
      (\<forall>idx sample. DISCEvalDataset_getitem env self idx = Inr sample \<longrightarrow>
         map_of sample ''instance_id'' = Some (PyInt idx) \<and>
         (\<exists>entry. py_getitem (metadata self) idx = Inr entry \<and>
                  map_of sample ''split'' = map_of entry ''split'' \<and>
                  map_of sample ''name'' = map_of entry ''name'')) \<and>
      (\<forall>idx. - int (length (files self)) \<le> idx \<and> idx < int (length (files self)) \<longrightarrow>
         (\<exists>sample. DISCEvalDataset_getitem env self idx = Inr sample) \<or>
         (\<exists>msg. DISCEvalDataset_getitem env self idx = Inl (Raised msg)))"
proof -
  define dir where "dir = (if path = [] \<or> last path = CHR ''/'' then path else path @ ''/'')"
  let ?nm = "\<lambda>f. fst (os_path_splitext (os_path_basename f))"
  let ?E = "\<lambda>s f m. metadata_entry env s (?nm f) = Some m"
  let ?shape = "\<lambda>f m. \<exists>s n. py_int env (drop 1 (?nm f)) = Some n \<and>
      m = [(''name'', PyStr (?nm f)), (''split'', PyInt s),
           (''image_num'', PyInt n), (''target'', PyInt (- 1))]"
  from DISCEvalDataset_init_Inr [OF assms dir_def]
  obtain refs rm queries qm train tm where
    r1: "snd (read_files env (dir @ ''references'') SPLIT_REF) = Inr (refs, rm)" and
    r2: "snd (read_files env (dir @ ''final_queries'') SPLIT_QUERY) = Inr (queries, qm)" and
    r3: "if include_train
         then snd (read_files env (dir @ ''train'') SPLIT_TRAIN) = Inr (train, tm)
         else train = [] \<and> tm = []" and
    fs: "files self = refs @ queries @ train" and
    ms: "metadata self = rm @ qm @ tm"
    by blast
  have e1: "list_all2 (?E SPLIT_REF) refs rm"
    using read_files_Inr [OF r1] by simp
  have e2: "list_all2 (?E SPLIT_QUERY) queries qm"
    using read_files_Inr [OF r2] by simp
  have e3: "list_all2 (?E SPLIT_TRAIN) train tm"
  proof (cases include_train)
    case True
    with r3 have "snd (read_files env (dir @ ''train'') SPLIT_TRAIN) = Inr (train, tm)"
      by simp
    from read_files_Inr [OF this] show ?thesis by simp
  next
    case False
    with r3 show ?thesis by simp
  qed
  have shape: "?E s f m \<Longrightarrow> ?shape f m" for s f m
    using metadata_entry_Some [of env s "?nm f" m] by blast
  have all: "list_all2 ?shape (files self) (metadata self)"
    unfolding fs ms
    by (intro list_all2_appendI list_all2_mono [OF e1] list_all2_mono [OF e2]
        list_all2_mono [OF e3]) (erule shape)+
  have len: "length (metadata self) = length (files self)"
    using all by (simp add: list_all2_lengthD)
  have train: "include_train \<or> train = []"
    using r3 by (cases include_train) simp_all
  have splits: "map (\<lambda>m. map_of m ''split'') (metadata self) =
        replicate (length refs) (Some (PyInt SPLIT_REF)) @
        replicate (length queries) (Some (PyInt SPLIT_QUERY)) @
        replicate (length train) (Some (PyInt SPLIT_TRAIN))"
    unfolding ms by (simp add: entries_split [OF e1] entries_split [OF e2] entries_split [OF e3])
  have entries: "\<forall>i < length (files self).
         \<exists>n. py_int env (drop 1 (?nm (files self ! i))) = Some n \<and>
             map_of (metadata self ! i) ''name'' = Some (PyStr (?nm (files self ! i))) \<and>
             map_of (metadata self ! i) ''image_num'' = Some (PyInt n) \<and>
             map_of (metadata self ! i) ''target'' = Some (PyInt (- 1))"
  proof (intro allI impI)
    fix i assume "i < length (files self)"
    from list_all2_nthD [OF all this] obtain s n where
      "py_int env (drop 1 (?nm (files self ! i))) = Some n" and
      "metadata self ! i = [(''name'', PyStr (?nm (files self ! i))), (''split'', PyInt s),
           (''image_num'', PyInt n), (''target'', PyInt (- 1))]"
      by blast
    then show "\<exists>n. py_int env (drop 1 (?nm (files self ! i))) = Some n \<and>
             map_of (metadata self ! i) ''name'' = Some (PyStr (?nm (files self ! i))) \<and>
             map_of (metadata self ! i) ''image_num'' = Some (PyInt n) \<and>
             map_of (metadata self ! i) ''target'' = Some (PyInt (- 1))"
      by simp
  qed
  have item: "\<forall>idx sample. DISCEvalDataset_getitem env self idx = Inr sample \<longrightarrow>
         map_of sample ''instance_id'' = Some (PyInt idx) \<and>
         (\<exists>entry. py_getitem (metadata self) idx = Inr entry \<and>
                  map_of sample ''split'' = map_of entry ''split'' \<and>
                  map_of sample ''name'' = map_of entry ''name'')"
  proof (intro allI impI)
    fix idx sample assume "DISCEvalDataset_getitem env self idx = Inr sample"
    from DISCEvalDataset_getitem_Inr [OF this] obtain img entry where
      g: "py_getitem (metadata self) idx = Inr entry" and
      s: "sample = dict_update [(''input'', PyObj img), (''instance_id'', PyInt idx)] entry"
      by blast
    from py_getitem_Inr_mem [OF g] all obtain f where "?shape f entry"
      by (auto simp add: list_all2_conv_all_nth in_set_conv_nth)
    then obtain s' n where
      "entry = [(''name'', PyStr (?nm f)), (''split'', PyInt s'),
           (''image_num'', PyInt n), (''target'', PyInt (- 1))]"
      by blast
    with s g show "map_of sample ''instance_id'' = Some (PyInt idx) \<and>
         (\<exists>entry. py_getitem (metadata self) idx = Inr entry \<and>
                  map_of sample ''split'' = map_of entry ''split'' \<and>
                  map_of sample ''name'' = map_of entry ''name'')"
      by simp
  qed
  have outcome: "\<forall>idx. - int (length (files self)) \<le> idx \<and> idx < int (length (files self)) \<longrightarrow>
         (\<exists>sample. DISCEvalDataset_getitem env self idx = Inr sample) \<or>
         (\<exists>msg. DISCEvalDataset_getitem env self idx = Inl (Raised msg))"
    using DISCEvalDataset_getitem_outcome [OF len] by blast
  from fs train len splits entries item outcome show ?thesis
    by (intro exI [of _ refs] exI [of _ queries] exI [of _ train] conjI)
qed

lemma demo_getitem:
  "DISCEvalDataset_getitem demo_io demo_dataset 2 =
     Inr [(''input'', PyObj ''/data/final_queries/Q00007.jpg''), (''instance_id'', PyInt 2),
          (''name'', PyStr ''Q00007''), (''split'', PyInt 1),
          (''image_num'', PyInt 7), (''target'', PyInt (- 1))]"
  "DISCEvalDataset_getitem demo_io demo_dataset (- 1) =
     Inr [(''input'', PyObj ''/data/train/T000003.jpg''), (''instance_id'', PyInt (- 1)),
          (''name'', PyStr ''T000003''), (''split'', PyInt 2),
          (''image_num'', PyInt 3), (''target'', PyInt (- 1))]"
  "DISCEvalDataset_getitem demo_io demo_dataset 4 = Inl IndexError"
  by (simp_all add: DISCEvalDataset_getitem_def demo_dataset_def py_getitem_def bind_exn_def
      ext_def)


theorem DISCEvalDataset_init_invariant_witness:
  "\<exists>self.
     snd (DISCEvalDataset_init demo_io ''/data'' None True None None None None) = Inr self \<and>
     self = demo_dataset \<and>
     DISCEvalDataset_getitem demo_io self 2 =
       Inr [(''input'', PyObj ''/data/final_queries/Q00007.jpg''), (''instance_id'', PyInt 2),
            (''name'', PyStr ''Q00007''), (''split'', PyInt 1),
            (''image_num'', PyInt 7), (''target'', PyInt (- 1))] \<and>
     (\<exists>refs queries train.
        files self = refs @ queries @ train \<and>
        length (metadata self) = length (files self) \<and>
        map (\<lambda>m. map_of m ''split'') (metadata self) =
          replicate (length refs) (Some (PyInt SPLIT_REF)) @
          replicate (length queries) (Some (PyInt SPLIT_QUERY)) @
          replicate (length train) (Some (PyInt SPLIT_TRAIN)))"
proof -
  have h: "snd (DISCEvalDataset_init demo_io ''/data'' None True None None None None) =
      Inr demo_dataset"
    by (simp add: demo_init)
  from DISCEvalDataset_init_invariant [OF h] obtain refs queries train where
    "files demo_dataset = refs @ queries @ train"
    "length (metadata demo_dataset) = length (files demo_dataset)"
    "map (\<lambda>m. map_of m ''split'') (metadata demo_dataset) =
          replicate (length refs) (Some (PyInt SPLIT_REF)) @
          replicate (length queries) (Some (PyInt SPLIT_QUERY)) @
          replicate (length train) (Some (PyInt SPLIT_TRAIN))"
    by blast
  with h demo_getitem(1) show ?thesis
    by (intro exI [of _ demo_dataset] exI [of _ refs] exI [of _ queries] exI [of _ train] conjI)
       simp_all
qed

section \<open>The training dataset and the bounds assertion\<close>

lemma py_getitem_not_AssertionError [simp]: "py_getitem xs i \<noteq> Inl (AssertionError msg)"
  by (simp add: py_getitem_def)

lemma call_on_image_not_AssertionError [simp]: "call_on_image t x \<noteq> Inl (AssertionError msg)"
  by (cases "(t, x)" rule: call_on_image.cases) simp_all

lemma call_on_record_not_AssertionError [simp]:
  "call_on_record t r \<noteq> Inl (AssertionError msg)"
  by (cases "(t, r)" rule: call_on_record.cases) simp_all

lemma DISCTrainDataset_getitem_AssertionError_iff:
  "(\<exists>msg. DISCTrainDataset_getitem self idx = Inl (AssertionError msg)) \<longleftrightarrow>
   \<not> (0 \<le> idx \<and> idx < int (DISCTrainDataset_len self))"
proof (cases "0 \<le> idx \<and> idx < int (DISCTrainDataset_len self)")
  case False
  then show ?thesis by (auto simp add: DISCTrainDataset_getitem_def)
next
  case True
  have "DISCTrainDataset_getitem self idx \<noteq> Inl (AssertionError msg)" for msg
    using True unfolding DISCTrainDataset_getitem_def Let_def
    by (auto simp add: bind_exn_Inl_iff split: option.splits)
  with True show ?thesis by blast
qed

lemma DISCEvalDataset_getitem_not_AssertionError:
  "DISCEvalDataset_getitem env self idx \<noteq> Inl (AssertionError msg)"
  unfolding DISCEvalDataset_getitem_def Let_def
  by (auto simp add: bind_exn_Inl_iff split: option.splits)

lemma DISCEvalDataset_getitem_IndexError:
  assumes "idx < - int (length (files self)) \<or> int (length (files self)) \<le> idx"
  shows "DISCEvalDataset_getitem env self idx = Inl IndexError"
  using assms unfolding DISCEvalDataset_getitem_def
  by (simp add: py_getitem_out_of_range bind_exn_def)

lemma DISCTrainDataset_init_Inr:
  assumes "DISCTrainDataset_init env get_transformations train_path0 query_path0 ref_path0
             train_image_size supervised0 = Inr self"
  shows "supervised self = supervised0 \<and>
         (if supervised0
          then length (ref_paths self) = length (query_paths self) \<and>
               (\<exists>t. img_transform self = Some (OnImage t))
          else (\<exists>t. img_transform self = Some (OnRecord t)))"
  using assms unfolding DISCTrainDataset_init_def Let_def
  by (auto simp add: bind_exn_Inr_iff split: if_splits)

lemma DISCTrainDataset_getitem_outcome:
  assumes "if supervised self
          then length (ref_paths self) = length (query_paths self) \<and>
               (\<exists>t. img_transform self = Some (OnImage t))
          else (\<exists>t. img_transform self = Some (OnRecord t))"
    and "0 \<le> idx" and "idx < int (DISCTrainDataset_len self)"
  shows "(\<exists>record0. DISCTrainDataset_getitem self idx = Inr record0) \<or>
         (\<exists>msg. DISCTrainDataset_getitem self idx = Inl (Raised msg))"
proof (cases "supervised self")
  case True
  with assms obtain t where t: "img_transform self = Some (OnImage t)"
    and len: "length (ref_paths self) = length (query_paths self)" by auto
  from assms True have q: "py_getitem (query_paths self) idx = Inr (query_paths self ! nat idx)"
    and r: "py_getitem (ref_paths self) idx = Inr (ref_paths self ! nat idx)"
    by (simp_all add: py_getitem_def DISCTrainDataset_len_def len)
  show ?thesis
    using assms(2,3) True unfolding DISCTrainDataset_getitem_def q r t
    by (cases "loader self (query_paths self ! nat idx)";
        cases "loader self (ref_paths self ! nat idx)")
       (auto simp add: bind_exn_def ext_def split: sum.splits)
next
  case False
  with assms obtain t where t: "img_transform self = Some (OnRecord t)" by auto
  from assms False have f: "py_getitem (files self) idx = Inr (files self ! nat idx)"
    by (simp add: py_getitem_def DISCTrainDataset_len_def)
  show ?thesis
    using assms(2,3) False unfolding DISCTrainDataset_getitem_def f t Let_def
    by (cases "loader self (files self ! nat idx)")
       (auto simp add: bind_exn_def ext_def split: sum.splits)
qed


text \<open>
  C4. For a \<^verbatim>\<open>DISCTrainDataset\<close> built by its constructor, \<^verbatim>\<open>__getitem__(idx)\<close> raises
  AssertionError exactly when \<open>idx\<close> is not in \<open>0 \<le> idx < len(self)\<close>, and for every
  \<open>idx\<close> in that range it returns a record unless the loader or the transform raises.
  This is the only bounds assertion of the two \<^verbatim>\<open>__getitem__\<close> operations:
  \<^verbatim>\<open>DISCEvalDataset.__getitem__\<close> never raises AssertionError, and an index outside
  \<open>-len \<le> idx < len\<close> makes it raise the IndexError of the list access.
\<close>

theorem getitem_bounds_assertion:
  assumes "DISCTrainDataset_init env get_transformations train_path0 query_path0 ref_path0
             train_image_size supervised0 = Inr self"
  shows "((\<exists>msg. DISCTrainDataset_getitem self idx = Inl (AssertionError msg)) \<longleftrightarrow>
            \<not> (0 \<le> idx \<and> idx < int (DISCTrainDataset_len self))) \<and>
         (0 \<le> idx \<and> idx < int (DISCTrainDataset_len self) \<longrightarrow>
            (\<exists>record0. DISCTrainDataset_getitem self idx = Inr record0) \<or>
            (\<exists>msg. DISCTrainDataset_getitem self idx = Inl (Raised msg))) \<and>
         (\<forall>msg. DISCEvalDataset_getitem env' ds idx' \<noteq> Inl (AssertionError msg)) \<and>
         (idx' < - int (length (files ds)) \<or> int (length (files ds)) \<le> idx' \<longrightarrow>
            DISCEvalDataset_getitem env' ds idx' = Inl IndexError)"
proof -
  from DISCTrainDataset_init_Inr [OF assms]
  have inv: "if supervised self
          then length (ref_paths self) = length (query_paths self) \<and>
               (\<exists>t. img_transform self = Some (OnImage t))
          else (\<exists>t. img_transform self = Some (OnRecord t))"
    by auto
  show ?thesis
    using DISCTrainDataset_getitem_AssertionError_iff [of self idx]
      DISCTrainDataset_getitem_outcome [OF inv, of idx]
      DISCEvalDataset_getitem_not_AssertionError [of env' ds idx']
      DISCEvalDataset_getitem_IndexError [of idx' ds env']
    by blast
qed

theorem getitem_bounds_assertion_witness:
  "\<exists>self.
     DISCTrainDataset_init demo_io demo_augmentations
       ''/data/train'' ''/data/final_queries'' ''/data/references'' 224 True = Inr self \<and>
     DISCTrainDataset_len self = 2 \<and>
     DISCTrainDataset_getitem self 0 =
       Inr [(''input0'', PyObj ''aug:/data/final_queries/Q00007.jpg''),
            (''input1'', PyObj ''aug:/data/references/R000002.jpg''),
            (''instance_id'', PyInt 0)] \<and>
     DISCTrainDataset_getitem self 2 = Inl (AssertionError '''') \<and>
     DISCTrainDataset_getitem self (- 1) = Inl (AssertionError '''') \<and>
     (\<exists>msg. DISCTrainDataset_getitem self (- 1) = Inl (AssertionError msg)) \<and>
     DISCEvalDataset_getitem demo_io demo_dataset (- 1) =
       Inr [(''input'', PyObj ''/data/train/T000003.jpg''), (''instance_id'', PyInt (- 1)),
            (''name'', PyStr ''T000003''), (''split'', PyInt 2),
            (''image_num'', PyInt 3), (''target'', PyInt (- 1))] \<and>
     DISCEvalDataset_getitem demo_io demo_dataset 4 = Inl IndexError"
proof -
  have "\<exists>self.
     DISCTrainDataset_init demo_io demo_augmentations
       ''/data/train'' ''/data/final_queries'' ''/data/references'' 224 True = Inr self \<and>
     supervised self \<and>
     query_paths self = [''/data/final_queries/Q00007.jpg'', ''/data/final_queries/Q00008.jpg''] \<and>
     ref_paths self = [''/data/references/R000002.jpg'', ''/data/references/R000001.jpg''] \<and>
     img_transform self = Some (OnImage (\<lambda>img. Inr (''aug:'' @ img))) \<and>
     loader self = (\<lambda>p. Inr p)"
    by (simp add: DISCTrainDataset_init_def demo_io_def demo_augmentations_def bind_exn_def
        ext_def os_path_join_def Let_def)
  then obtain self where
    init: "DISCTrainDataset_init demo_io demo_augmentations
       ''/data/train'' ''/data/final_queries'' ''/data/references'' 224 True = Inr self" and
    fields: "supervised self"
      "query_paths self = [''/data/final_queries/Q00007.jpg'', ''/data/final_queries/Q00008.jpg'']"
      "ref_paths self = [''/data/references/R000002.jpg'', ''/data/references/R000001.jpg'']"
      "img_transform self = Some (OnImage (\<lambda>img. Inr (''aug:'' @ img)))"
      "loader self = (\<lambda>p. Inr p)"
    by blast
  have len: "DISCTrainDataset_len self = 2"
    by (simp add: DISCTrainDataset_len_def fields)
  have item: "DISCTrainDataset_getitem self 0 =
       Inr [(''input0'', PyObj ''aug:/data/final_queries/Q00007.jpg''),
            (''input1'', PyObj ''aug:/data/references/R000002.jpg''),
            (''instance_id'', PyInt 0)]"
    by (simp add: DISCTrainDataset_getitem_def len fields py_getitem_def bind_exn_def ext_def)
  have out: "DISCTrainDataset_getitem self 2 = Inl (AssertionError '''')"
    "DISCTrainDataset_getitem self (- 1) = Inl (AssertionError '''')"
    by (simp_all add: DISCTrainDataset_getitem_def len)
  from getitem_bounds_assertion [OF init, of "- 1" demo_io demo_dataset 4]
  have claim: "(\<exists>msg. DISCTrainDataset_getitem self (- 1) = Inl (AssertionError msg)) \<and>
      DISCEvalDataset_getitem demo_io demo_dataset 4 = Inl IndexError"
    by (simp add: len demo_dataset_def)
  from init len item out claim demo_getitem(2) show ?thesis
    by (intro exI [of _ self] conjI) simp_all
qed

end
